theory Spec2Isabelle
  imports Complex_Main "HOL-Library.AList" "HOL-Library.Char_ord" "HOL-Library.List_Lexorder"
begin

section \<open>Values held in table cells and dataframe cells\<close>

text \<open>
  A value as SQLite stores it and as pandas hands it back: NULL (None / NaN / NaT on the
  Python side), an INTEGER, a REAL or a TEXT. REAL values are kept as exact reals; none of
  the properties below depends on floating-point rounding.
\<close>

datatype cell = Null | Num int | Real real | Text string

text \<open>\<^verbatim>\<open>pd.isna(x)\<close> on a scalar.\<close>

fun pd_isna :: "cell \<Rightarrow> bool" where
  "pd_isna Null = True"
| "pd_isna _ = False"

section \<open>Freshness evaluator\<close>

subsection \<open>Python datetime and timedelta\<close>

record datetime =
  year :: int
  month :: int
  day :: int
  hour :: int
  minute :: int
  second :: int
  microsecond :: int

definition is_leap :: "int \<Rightarrow> bool" where
  "is_leap y = (y mod 4 = 0 \<and> (y mod 100 \<noteq> 0 \<or> y mod 400 = 0))"

definition days_in_month :: "int \<Rightarrow> int \<Rightarrow> int" where
  "days_in_month y m =
     (if m = 2 then (if is_leap y then 29 else 28)
      else if m = 4 \<or> m = 6 \<or> m = 9 \<or> m = 11 then 30 else 31)"

definition days_before_year :: "int \<Rightarrow> int" where
  "days_before_year y = (let p = y - 1 in p * 365 + p div 4 - p div 100 + p div 400)"

definition days_before_month :: "int \<Rightarrow> int \<Rightarrow> int" where
  "days_before_month y m = (\<Sum>k \<leftarrow> [1 ..< nat m]. days_in_month y (int k))"

text \<open>\<^verbatim>\<open>date.toordinal()\<close>: 0001-01-01 is day 1 of the proleptic Gregorian calendar.\<close>

definition toordinal :: "datetime \<Rightarrow> int" where
  "toordinal d = days_before_year (year d) + days_before_month (year d) (month d) + day d"

definition to_microseconds :: "datetime \<Rightarrow> int" where
  "to_microseconds d =
     (((toordinal d * 24 + hour d) * 60 + minute d) * 60 + second d) * 1000000 + microsecond d"

text \<open>
  \<^verbatim>\<open>(now - timestamp).days\<close>: a timedelta is normalised so that seconds and microseconds are
  non-negative, which makes \<^verbatim>\<open>.days\<close> the floor of the difference in days.
\<close>

definition timedelta_days :: "datetime \<Rightarrow> datetime \<Rightarrow> int" where
  "timedelta_days now timestamp =
     (to_microseconds now - to_microseconds timestamp) div 86400000000"

subsection \<open>Parsing\<close>

text \<open>
  The exceptions of Python and of the sqlite3 driver that the modelled code can meet. A result
  of type \<open>error + 'a\<close> is \<open>Inl\<close> when the call raises.
\<close>

datatype error =
  ValueError | TypeError | KeyError | AttributeError | ZeroDivisionError
  | OperationalError | IntegrityError

text \<open>
  \<^verbatim>\<open>datetime.strptime(val, '%Y-%m-%d %H:%M:%S')\<close> applied to a cell of a dataframe. The library
  parser is a parameter \<open>strptime\<close> of the model (\<open>None\<close> is its ValueError); a value
  that is not a string makes the call raise TypeError.
\<close>

fun strptime_cell :: "(string \<Rightarrow> datetime option) \<Rightarrow> cell \<Rightarrow> error + datetime" where
  "strptime_cell strptime (Text s) =
     (case strptime s of None \<Rightarrow> Inl ValueError | Some t \<Rightarrow> Inr t)"
| "strptime_cell strptime _ = Inl TypeError"

text \<open>
  A parser for the zero-padded form \<^verbatim>\<open>YYYY-MM-DD HH:MM:SS\<close>, the form in which SQLite's
  CURRENT_TIMESTAMP is stored. It is the instance of \<open>strptime\<close> at which the theorems below
  are evaluated.
\<close>

definition digit :: "char \<Rightarrow> int option" where
  "digit c = (let n = of_char c :: nat in if 48 \<le> n \<and> n \<le> 57 then Some (int n - 48) else None)"

fun number :: "string \<Rightarrow> int option" where
  "number [] = None"
| "number cs =
     (if list_all (\<lambda>c. digit c \<noteq> None) cs
      then Some (foldl (\<lambda>acc c. acc * 10 + the (digit c)) 0 cs) else None)"

definition make_datetime :: "int \<Rightarrow> int \<Rightarrow> int \<Rightarrow> int \<Rightarrow> int \<Rightarrow> int \<Rightarrow> datetime option" where
  "make_datetime y mo d h mi s =
     (if 1 \<le> y \<and> 1 \<le> mo \<and> mo \<le> 12 \<and> 1 \<le> d \<and> d \<le> days_in_month y mo
         \<and> h \<le> 23 \<and> mi \<le> 59 \<and> s \<le> 59
      then Some \<lparr>year = y, month = mo, day = d, hour = h, minute = mi, second = s, microsecond = 0\<rparr>
      else None)"

fun strptime_padded :: "string \<Rightarrow> datetime option" where
  "strptime_padded [y1, y2, y3, y4, a, m1, m2, b, d1, d2, c, h1, h2, e, i1, i2, f, s1, s2] =
     (if a = CHR ''-'' \<and> b = CHR ''-'' \<and> c = CHR '' '' \<and> e = CHR '':'' \<and> f = CHR '':''
      then (case (number [y1, y2, y3, y4], number [m1, m2], number [d1, d2],
                  number [h1, h2], number [i1, i2], number [s1, s2]) of
              (Some y, Some mo, Some d, Some h, Some mi, Some s) \<Rightarrow> make_datetime y mo d h mi s
            | _ \<Rightarrow> None)
      else None)"
| "strptime_padded _ = None"

subsection \<open>is_outdated and the three-tier colouring\<close>

text \<open>
  \<^verbatim>\<open>is_outdated(timestamp_str)\<close>: the \<^verbatim>\<open>try\<close> block is the \<open>Inr\<close> branch, the bare
  \<^verbatim>\<open>except\<close> the \<open>Inl\<close> branch. \<open>now\<close> stands for \<^verbatim>\<open>datetime.now()\<close>.
\<close>

definition is_outdated :: "(string \<Rightarrow> datetime option) \<Rightarrow> datetime \<Rightarrow> cell \<Rightarrow> bool" where
  "is_outdated strptime now timestamp_str =
     (if pd_isna timestamp_str then True
      else (case strptime_cell strptime timestamp_str of
              Inr timestamp \<Rightarrow> timedelta_days now timestamp > 30
            | Inl _ \<Rightarrow> True))"

text \<open>\<^verbatim>\<open>color_by_days(val)\<close>, the inner function of \<^verbatim>\<open>apply_update_styling\<close>.\<close>

definition color_by_days :: "(string \<Rightarrow> datetime option) \<Rightarrow> datetime \<Rightarrow> cell \<Rightarrow> string" where
  "color_by_days strptime now val =
     (if pd_isna val then ''background-color: #FF9999''
      else (case strptime_cell strptime val of
              Inr timestamp \<Rightarrow>
                (let days = timedelta_days now timestamp in
                 if days < 30 then ''background-color: #99FF99''
                 else if days < 35 then ''background-color: #FFFF99''
                 else ''background-color: #FF9999'')
            | Inl _ \<Rightarrow> ''background-color: #FF9999''))"

section \<open>The relational store\<close>

subsection \<open>Rows and tables\<close>

text \<open>
  A row maps column keys to cells. SQLite resolves column names without regard to letter
  case, so the key of a column is its name folded to lower case; \<open>cols\<close> keeps the names as
  declared, which is what \<^verbatim>\<open>PRAGMA table_info\<close> reports.
\<close>

type_synonym row = "(string \<times> cell) list"

definition value_of :: "row \<Rightarrow> string \<Rightarrow> cell" where
  "value_of r c = (case map_of r c of None \<Rightarrow> Null | Some v \<Rightarrow> v)"

definition set_col :: "string \<Rightarrow> cell \<Rightarrow> row \<Rightarrow> row" where
  "set_col c v r = AList.update c v r"

fun set_cols :: "(string \<times> cell) list \<Rightarrow> row \<Rightarrow> row" where
  "set_cols [] r = r"
| "set_cols ((c, v) # cvs) r = set_cols cvs (set_col c v r)"

datatype dflt = Const cell | CURRENT_TIMESTAMP

record table =
  cols :: "string list"
  defaults :: "(string \<times> dflt) list"
  uniques :: "string list list"
  rows :: "row list"

type_synonym store = "(string \<times> table) list"

text \<open>
  Folding of letter case on the ASCII letters. The upper-case letters are the codes 65 to 90:
  bit 6 set, bits 5 and 7 clear, and the low five bits a number from 1 to 26. Folding sets
  bit 5, which adds 32.
\<close>

fun lower_char :: "char \<Rightarrow> char" where
  "lower_char (Char b0 b1 b2 b3 b4 b5 b6 b7) =
     (if b6 \<and> \<not> b5 \<and> \<not> b7 \<and> (b0 \<or> b1 \<or> b2 \<or> b3 \<or> b4) \<and> \<not> (b4 \<and> b3 \<and> (b2 \<or> (b1 \<and> b0)))
      then Char b0 b1 b2 b3 b4 True b6 b7
      else Char b0 b1 b2 b3 b4 b5 b6 b7)"

definition lower :: "string \<Rightarrow> string" where
  "lower s = map lower_char s"

definition column_keys :: "table \<Rightarrow> string list" where
  "column_keys tb = map lower (cols tb)"

text \<open>The comparison \<^verbatim>\<open>a = b\<close> of SQL: never true when an operand is NULL.\<close>

fun sql_eq :: "cell \<Rightarrow> cell \<Rightarrow> bool" where
  "sql_eq Null _ = False"
| "sql_eq _ Null = False"
| "sql_eq (Num a) (Real b) = (of_int a = b)"
| "sql_eq (Real a) (Num b) = (a = of_int b)"
| "sql_eq a b = (a = b)"

subsection \<open>Statements\<close>

fun andthen :: "error + 'a \<Rightarrow> ('a \<Rightarrow> error + 'b) \<Rightarrow> error + 'b" where
  "andthen (Inl e) f = Inl e"
| "andthen (Inr x) f = f x"

fun for_each :: "('a \<Rightarrow> 's \<Rightarrow> error + 's) \<Rightarrow> 'a list \<Rightarrow> 's \<Rightarrow> error + 's" where
  "for_each f [] s = Inr s"
| "for_each f (x # xs) s = andthen (f x s) (for_each f xs)"

text \<open>\<^verbatim>\<open>CREATE TABLE IF NOT EXISTS\<close>.\<close>

definition create_table_if_not_exists :: "string \<Rightarrow> table \<Rightarrow> store \<Rightarrow> store" where
  "create_table_if_not_exists name tb s =
     (case map_of s name of None \<Rightarrow> s @ [(name, tb)] | Some _ \<Rightarrow> s)"

text \<open>\<^verbatim>\<open>PRAGMA table_info(t)\<close> followed by \<^verbatim>\<open>[column[1] for column in c.fetchall()]\<close>.\<close>

definition table_info :: "string \<Rightarrow> store \<Rightarrow> string list" where
  "table_info name s = (case map_of s name of None \<Rightarrow> [] | Some tb \<Rightarrow> cols tb)"

text \<open>
  \<^verbatim>\<open>ALTER TABLE t ADD COLUMN c ...\<close>: the engine refuses a column whose name, letter case
  apart, the table already has (``duplicate column name''). Existing rows take the
  declared default, NULL when there is none.
\<close>

definition alter_table_add_column :: "string \<Rightarrow> string \<Rightarrow> cell \<Rightarrow> store \<Rightarrow> error + store" where
  "alter_table_add_column name c d s =
     (case map_of s name of
        None \<Rightarrow> Inl OperationalError
      | Some tb \<Rightarrow>
          if lower c \<in> set (column_keys tb) then Inl OperationalError
          else Inr (AList.update name
                 (tb\<lparr>cols := cols tb @ [c],
                     defaults := AList.update (lower c) (Const d) (defaults tb),
                     rows := map (set_col (lower c) d) (rows tb)\<rparr>) s))"

text \<open>The next value of an \<^verbatim>\<open>INTEGER PRIMARY KEY\<close>: one more than the largest in use.\<close>

definition rowid :: "row \<Rightarrow> int" where
  "rowid r = (case value_of r ''id'' of Num n \<Rightarrow> n | _ \<Rightarrow> 0)"

definition next_id :: "row list \<Rightarrow> int" where
  "next_id rs = foldl max 0 (map rowid rs) + 1"

fun default_value :: "string \<Rightarrow> dflt option \<Rightarrow> cell" where
  "default_value now None = Null"
| "default_value now (Some (Const v)) = v"
| "default_value now (Some CURRENT_TIMESTAMP) = Text now"

definition violates_unique :: "table \<Rightarrow> row \<Rightarrow> bool" where
  "violates_unique tb r =
     list_ex (\<lambda>u. list_ex (\<lambda>r'. list_all (\<lambda>k. sql_eq (value_of r k) (value_of r' k)) u) (rows tb))
       (uniques tb)"

definition new_row :: "table \<Rightarrow> (string \<times> cell) list \<Rightarrow> string \<Rightarrow> row" where
  "new_row tb vals now =
     map (\<lambda>k. (k, case map_of vals k of
                     Some v \<Rightarrow> v
                   | None \<Rightarrow> if k = ''id'' then Num (next_id (rows tb))
                             else default_value now (map_of (defaults tb) k)))
       (column_keys tb)"

text \<open>
  \<^verbatim>\<open>INSERT INTO t (c1, ...) VALUES (...)\<close>: OperationalError for a missing table or column,
  IntegrityError for a row that repeats a unique key. \<open>now\<close> is the text CURRENT_TIMESTAMP
  evaluates to.
\<close>

definition insert_into :: "string \<Rightarrow> (string \<times> cell) list \<Rightarrow> string \<Rightarrow> store \<Rightarrow> error + store" where
  "insert_into name vals now s =
     (case map_of s name of
        None \<Rightarrow> Inl OperationalError
      | Some tb \<Rightarrow>
          if \<not> list_all (\<lambda>c. c \<in> set (column_keys tb)) (map fst vals) then Inl OperationalError
          else (let r = new_row tb vals now in
                if violates_unique tb r then Inl IntegrityError
                else Inr (AList.update name (tb\<lparr>rows := rows tb @ [r]\<rparr>) s)))"

text \<open>
  \<^verbatim>\<open>SELECT ... FROM t WHERE ...\<close> and \<^verbatim>\<open>UPDATE t SET ... WHERE ...\<close>: \<open>refs\<close> lists the
  columns the statement names, \<open>P\<close> is its WHERE clause, \<open>f\<close> its SET clause.
\<close>

definition sql_select :: "string \<Rightarrow> string list \<Rightarrow> (row \<Rightarrow> bool) \<Rightarrow> store \<Rightarrow> error + row list" where
  "sql_select name refs P s =
     (case map_of s name of
        None \<Rightarrow> Inl OperationalError
      | Some tb \<Rightarrow>
          if list_all (\<lambda>c. c \<in> set (column_keys tb)) refs then Inr (filter P (rows tb))
          else Inl OperationalError)"

definition sql_update :: "string \<Rightarrow> string list \<Rightarrow> (row \<Rightarrow> bool) \<Rightarrow> (row \<Rightarrow> row) \<Rightarrow> store \<Rightarrow> error + store" where
  "sql_update name refs P f s =
     (case map_of s name of
        None \<Rightarrow> Inl OperationalError
      | Some tb \<Rightarrow>
          if list_all (\<lambda>c. c \<in> set (column_keys tb)) refs
          then Inr (AList.update name (tb\<lparr>rows := map (\<lambda>r. if P r then f r else r) (rows tb)\<rparr>) s)
          else Inl OperationalError)"

text \<open>\<^verbatim>\<open>c.fetchone()[0]\<close>: subscripting None raises TypeError.\<close>

fun fetchone_0 :: "string \<Rightarrow> row list \<Rightarrow> error + cell" where
  "fetchone_0 c [] = Inl TypeError"
| "fetchone_0 c (r # _) = Inr (value_of r c)"


section \<open>setup_database\<close>

subsection \<open>The schema of the CREATE TABLE statements\<close>

definition users_schema :: table where
  "users_schema =
     \<lparr>cols = [''id'', ''username'', ''password_hash'', ''hub_name'', ''is_admin'', ''created_at''],
      defaults = [(''is_admin'', Const (Num 0)), (''created_at'', CURRENT_TIMESTAMP)],
      uniques = [[''id''], [''username'']],
      rows = []\<rparr>"

definition hubs_schema :: table where
  "hubs_schema =
     \<lparr>cols = [''id'', ''hub_name'', ''created_at'', ''updated_at''],
      defaults = [(''created_at'', CURRENT_TIMESTAMP), (''updated_at'', CURRENT_TIMESTAMP)],
      uniques = [[''id''], [''hub_name'']],
      rows = []\<rparr>"

definition hub_metrics_schema :: table where
  "hub_metrics_schema =
     \<lparr>cols = [''id'', ''hub_id'', ''total_headcount'', ''total_seats'', ''total_clients'',
              ''services_offered'', ''female_percent'', ''male_percent'', ''other_gender_percent'',
              ''campus_type'', ''sez_status'', ''location'', ''coverage_hours'',
              ''transport_facilities'', ''updated_at'', ''updated_by'', ''bench_count'',
              ''location_headcounts'', ''certifications''],
      defaults = [(''updated_at'', CURRENT_TIMESTAMP), (''bench_count'', Const (Num 0))],
      uniques = [[''id'']],
      rows = []\<rparr>"

definition hub_capabilities_schema :: table where
  "hub_capabilities_schema =
     \<lparr>cols = [''id'', ''hub_id'', ''capability_name'', ''capability_category'', ''headcount'',
              ''updated_at'', ''updated_by'', ''capability_updated_at''],
      defaults = [(''headcount'', Const (Num 0)), (''updated_at'', CURRENT_TIMESTAMP),
                  (''capability_updated_at'', CURRENT_TIMESTAMP)],
      uniques = [[''id''], [''hub_id'', ''capability_name'']],
      rows = []\<rparr>"

definition client_metrics_schema :: table where
  "client_metrics_schema =
     \<lparr>cols = [''id'', ''hub_id'', ''client_name'', ''engagement_status'', ''commercial_model'',
              ''capability_category'', ''capability_name'', ''relationship_duration'',
              ''scope_summary'', ''updated_at'', ''updated_by''],
      defaults = [(''updated_at'', CURRENT_TIMESTAMP)],
      uniques = [[''id''], [''hub_id'', ''client_name'']],
      rows = []\<rparr>"

definition people_metrics_schema :: table where
  "people_metrics_schema =
     \<lparr>cols = [''id'', ''hub_id'', ''metric_name'', ''metric_value'', ''metric_category'',
              ''time_period'', ''hiring_reason'', ''updated_at'', ''updated_by'',
              ''people_metric_updated_at''],
      defaults = [(''updated_at'', CURRENT_TIMESTAMP),
                  (''people_metric_updated_at'', CURRENT_TIMESTAMP)],
      uniques = [[''id''], [''hub_id'', ''metric_name'', ''time_period'', ''hiring_reason'']],
      rows = []\<rparr>"

subsection \<open>Column additions\<close>

text \<open>
  The pattern \<^verbatim>\<open>if "c" not in columns: c.execute("ALTER TABLE t ADD COLUMN c ...")\<close>: the
  test is Python's exact comparison of strings against the list read earlier, and the
  statement is executed outside any \<^verbatim>\<open>try\<close>.
\<close>

definition add_if_not_in :: "string list \<Rightarrow> string \<Rightarrow> string \<Rightarrow> cell \<Rightarrow> store \<Rightarrow> error + store" where
  "add_if_not_in columns name c d s =
     (if c \<notin> set columns then alter_table_add_column name c d s else Inr s)"

text \<open>\<^verbatim>\<open>add_column_if_not_exists\<close>: \<^verbatim>\<open>except sqlite3.OperationalError: pass\<close>.\<close>

definition add_column_if_not_exists :: "string \<Rightarrow> string \<Rightarrow> cell \<Rightarrow> store \<Rightarrow> error + store" where
  "add_column_if_not_exists name c d s =
     (case alter_table_add_column name c d s of
        Inr s' \<Rightarrow> Inr s'
      | Inl e \<Rightarrow> if e = OperationalError then Inr s else Inl e)"

subsection \<open>Seed data\<close>

fun starts_with :: "string \<Rightarrow> string \<Rightarrow> bool" where
  "starts_with [] s = True"
| "starts_with (p # ps) [] = False"
| "starts_with (p # ps) (c # cs) = (if p = c then starts_with ps cs else False)"

text \<open>\<^verbatim>\<open>needle in text\<close> on Python strings.\<close>

fun contains :: "string \<Rightarrow> string \<Rightarrow> bool" where
  "contains needle [] = (needle = [])"
| "contains needle (c # cs) = (if starts_with needle (c # cs) then True else contains needle cs)"

definition capabilities_data :: "(string \<times> string) list" where
  "capabilities_data =
     [(''Ad Operations'', ''MEDIA+''), (''Media Reporting'', ''MEDIA+''), (''SEO'', ''MEDIA+''),
      (''Media Activation'', ''MEDIA+''), (''Retail Media'', ''MEDIA+''),
      (''Paid Search'', ''MEDIA+''), (''Commerce'', ''MEDIA+''), (''Programmatic'', ''MEDIA+''),
      (''Analytics & Insights'', ''MEDIA+''),
      (''Language Services'', ''CONTENT+''), (''Post-production'', ''CONTENT+''),
      (''Transcreation'', ''CONTENT+''), (''Adaptation'', ''CONTENT+''),
      (''Content for Commerce'', ''CONTENT+''),
      (''Experience Platforms'', ''CX+''), (''Commerce Platforms'', ''CX+''),
      (''Marketing Automation'', ''CX+''), (''Engineering Services'', ''CX+''),
      (''Creative Technology'', ''CX+''), (''CRM'', ''CX+''), (''DevOps'', ''CX+''),
      (''Quality Engineering'', ''CX+'')]"

definition default_hubs :: "string list" where
  "default_hubs =
     [''AKQA'', ''Mirum Digital Pvt Ltd'', ''GroupM Nexus Global Team'', ''Hogarth Worldwide'',
      ''Hogarth Studios'', ''Verticurl'', ''VML-Tech Commerce'']"

definition campus_type_of :: "string \<Rightarrow> string" where
  "campus_type_of hub_name =
     (if contains ''AKQA'' hub_name \<or> contains ''GroupM'' hub_name
         \<or> contains ''VML-Tech Commerce'' hub_name \<or> contains ''Hogarth Studios'' hub_name
      then ''In-Campus'' else ''Outside-Campus'')"

definition sez_status_of :: "string \<Rightarrow> string" where
  "sez_status_of hub_name = (if contains ''Hogarth Worldwide'' hub_name then ''Yes'' else ''No'')"

definition location_of :: "string \<Rightarrow> string" where
  "location_of hub_name =
     (if contains ''Hogarth Worldwide'' hub_name then ''Chennai, Hyderabad, Gurugram''
      else if contains ''Verticurl'' hub_name then ''Coimbatore, Hyderabad, Gurugram''
      else if contains ''Mirum'' hub_name then ''Mumbai and Gurugram''
      else ''Gurugram'')"

definition transport_of :: "string \<Rightarrow> string" where
  "transport_of hub_name =
     (if contains ''Hogarth'' hub_name \<or> contains ''Verticurl'' hub_name then ''Yes'' else ''No'')"

definition primary_category :: "string \<Rightarrow> string" where
  "primary_category hub_name =
     (if contains ''AKQA'' hub_name \<or> contains ''Mirum'' hub_name
         \<or> contains ''VML-Tech Commerce'' hub_name \<or> contains ''Verticurl'' hub_name then ''CX+''
      else if contains ''GroupM'' hub_name then ''MEDIA+''
      else if contains ''Hogarth'' hub_name then ''CONTENT+''
      else ''CX+'')"

definition sample_clients :: "string list" where
  "sample_clients = [''Client 1'', ''Client 2'', ''Client 3'', ''Client 4'', ''Client 5'']"

text \<open>
  \<open>(metric_name, category, period, value)\<close>. The column \<^verbatim>\<open>metric_value\<close> is declared REAL, so
  the integers of the source are stored as reals.
\<close>

definition people_metric_types :: "(string \<times> string \<times> string \<times> real) list" where
  "people_metric_types =
     [(''Tenure <1 year'', ''Tenure'', ''2025'', 25),
      (''Tenure 1-2 years'', ''Tenure'', ''2025'', 22),
      (''Tenure 2-3 years'', ''Tenure'', ''2025'', 18),
      (''Tenure 3-5 years'', ''Tenure'', ''2025'', 15),
      (''Tenure 5-7 years'', ''Tenure'', ''2025'', 10),
      (''Tenure 7-10 years'', ''Tenure'', ''2025'', 5),
      (''Tenure 10+ years'', ''Tenure'', ''2025'', 3),
      (''Permanent Employees'', ''Employment Type'', ''2025'', 75),
      (''Contract Employees'', ''Employment Type'', ''2025'', 25),
      (''Single'', ''Marital Status'', ''2025'', 55),
      (''Married'', ''Marital Status'', ''2025'', 40),
      (''Other Marital Status'', ''Marital Status'', ''2025'', 5)]"

text \<open>\<^verbatim>\<open>SELECT COUNT(*) FROM t\<close>.\<close>

definition count_rows :: "string \<Rightarrow> store \<Rightarrow> error + nat" where
  "count_rows name s =
     (case map_of s name of None \<Rightarrow> Inl OperationalError | Some tb \<Rightarrow> Inr (length (rows tb)))"

text \<open>The body of \<^verbatim>\<open>for hub_name in default_hubs\<close>.\<close>

definition seed_hub :: "string \<Rightarrow> string \<Rightarrow> store \<Rightarrow> error + store" where
  "seed_hub now hub_name s0 =
     andthen (insert_into ''hubs'' [(''hub_name'', Text hub_name)] now s0) (\<lambda>s1.
     andthen (sql_select ''hubs'' [''id'', ''hub_name'']
                (\<lambda>r. sql_eq (value_of r ''hub_name'') (Text hub_name)) s1) (\<lambda>found.
     andthen (fetchone_0 ''id'' found) (\<lambda>hub_id.
     andthen (insert_into ''hub_metrics''
                [(''hub_id'', hub_id), (''total_headcount'', Num 95), (''total_seats'', Num 76),
                 (''total_clients'', Num 12), (''services_offered'', Num 8),
                 (''female_percent'', Real 35), (''male_percent'', Real 63),
                 (''other_gender_percent'', Real 2),
                 (''campus_type'', Text (campus_type_of hub_name)),
                 (''sez_status'', Text (sez_status_of hub_name)),
                 (''location'', Text (location_of hub_name)),
                 (''coverage_hours'', Text ''24x5''),
                 (''transport_facilities'', Text (transport_of hub_name))] now s1) (\<lambda>s2.
     andthen (for_each
                (\<lambda>(capability_name, category) s.
                   if category = primary_category hub_name
                   then insert_into ''hub_capabilities''
                          [(''hub_id'', hub_id), (''capability_name'', Text capability_name),
                           (''capability_category'', Text category), (''headcount'', Num 0)] now s
                   else Inr s)
                capabilities_data s2) (\<lambda>s3.
     andthen (for_each
                (\<lambda>client s.
                   insert_into ''client_metrics''
                     [(''hub_id'', hub_id), (''client_name'', Text client),
                      (''engagement_status'', Text ''Active''), (''commercial_model'', Text ''FTE''),
                      (''capability_category'', Text (primary_category hub_name)),
                      (''scope_summary'', Text ''Sample scope details'')] now s)
                sample_clients s3) (\<lambda>s4.
     for_each
       (\<lambda>(metric_name, category, period, v) s.
          insert_into ''people_metrics''
            [(''hub_id'', hub_id), (''metric_name'', Text metric_name), (''metric_value'', Real v),
             (''metric_category'', Text category), (''time_period'', Text period)] now s)
       people_metric_types s4))))))"

text \<open>\<^verbatim>\<open>Insert default hubs if table is empty\<close>.\<close>

definition seed_hubs :: "string \<Rightarrow> store \<Rightarrow> error + store" where
  "seed_hubs now s =
     andthen (count_rows ''hubs'' s) (\<lambda>n.
       if n = 0 then for_each (seed_hub now) default_hubs s else Inr s)"

definition replace_space :: "string \<Rightarrow> string" where
  "replace_space s = map (\<lambda>c. if c = CHR '' '' then CHR ''_'' else c) s"

text \<open>
  \<^verbatim>\<open>Create default admin user if no users exist\<close>, then one user per hub. \<open>sha256\<close> stands for
  \<^verbatim>\<open>hashlib.sha256(p.encode()).hexdigest()\<close>. A hub name that is not a string has no
  \<^verbatim>\<open>lower\<close> method.
\<close>

definition seed_hub_user :: "(string \<Rightarrow> string) \<Rightarrow> string \<Rightarrow> row \<Rightarrow> store \<Rightarrow> error + store" where
  "seed_hub_user sha256 now hub s =
     (case value_of hub ''hub_name'' of
        Text hub_name \<Rightarrow>
          (let username = replace_space (lower hub_name);
               password = username @ ''123''
           in insert_into ''users''
                [(''username'', Text username), (''password_hash'', Text (sha256 password)),
                 (''hub_name'', Text hub_name), (''is_admin'', Num 0)] now s)
      | _ \<Rightarrow> Inl AttributeError)"

definition seed_users :: "(string \<Rightarrow> string) \<Rightarrow> string \<Rightarrow> store \<Rightarrow> error + store" where
  "seed_users sha256 now s =
     andthen (count_rows ''users'' s) (\<lambda>n.
       if n = 0
       then andthen (insert_into ''users''
                       [(''username'', Text ''admin''), (''password_hash'', Text (sha256 ''admin123'')),
                        (''hub_name'', Text ''ALL''), (''is_admin'', Num 1)] now s) (\<lambda>s1.
            andthen (sql_select ''hubs'' [''id'', ''hub_name''] (\<lambda>r. True) s1) (\<lambda>hubs.
            for_each (seed_hub_user sha256 now) hubs s1))
       else Inr s)"

subsection \<open>Initialising the fine-grained timestamps\<close>

definition tables_to_update :: "(string \<times> string list) list" where
  "tables_to_update =
     [(''hub_metrics'', [''metrics_updated_at'', ''location_updated_at'', ''certifications_updated_at'']),
      (''hub_capabilities'', [''capability_updated_at'']),
      (''client_metrics'', [''client_updated_at'']),
      (''people_metrics'', [''people_metric_updated_at''])]"

text \<open>
  One round of \<^verbatim>\<open>for table_info in tables_to_update\<close>: select the ids of the rows with a NULL
  timestamp, and for each set every timestamp column of the rows with that id.
\<close>

definition initialize_timestamps :: "string \<Rightarrow> string \<times> string list \<Rightarrow> store \<Rightarrow> error + store" where
  "initialize_timestamps now entry s =
     (case entry of (table_name, timestamp_columns) \<Rightarrow>
        andthen (sql_select table_name (''id'' # timestamp_columns)
                   (\<lambda>r. list_ex (\<lambda>c. value_of r c = Null) timestamp_columns) s)
          (\<lambda>null_timestamp_records.
             for_each
               (\<lambda>record_id.
                  sql_update table_name (timestamp_columns @ [''id''])
                    (\<lambda>r. sql_eq (value_of r ''id'') (value_of record_id ''id''))
                    (set_cols (map (\<lambda>c. (c, Text now)) timestamp_columns)))
               null_timestamp_records s))"

subsection \<open>The function\<close>

definition create_tables_1 :: "store \<Rightarrow> store" where
  "create_tables_1 s =
     create_table_if_not_exists ''hub_metrics'' hub_metrics_schema
       (create_table_if_not_exists ''hubs'' hubs_schema
          (create_table_if_not_exists ''users'' users_schema s))"

definition add_hub_metrics_columns :: "store \<Rightarrow> error + store" where
  "add_hub_metrics_columns s =
     (let columns = table_info ''hub_metrics'' s in
      andthen (add_if_not_in columns ''hub_metrics'' ''bench_count'' (Num 0) s) (\<lambda>s.
      andthen (add_if_not_in columns ''hub_metrics'' ''location_headcounts'' Null s) (\<lambda>s.
      add_if_not_in columns ''hub_metrics'' ''certifications'' Null s)))"

definition create_tables_2 :: "store \<Rightarrow> store" where
  "create_tables_2 s =
     create_table_if_not_exists ''people_metrics'' people_metrics_schema
       (create_table_if_not_exists ''client_metrics'' client_metrics_schema
          (create_table_if_not_exists ''hub_capabilities'' hub_capabilities_schema s))"

definition hub_metrics_timestamp_columns :: "string list" where
  "hub_metrics_timestamp_columns =
     [''metrics_updated_at'', ''location_updated_at'', ''certifications_updated_at'']"

definition add_hub_metrics_timestamps :: "store \<Rightarrow> error + store" where
  "add_hub_metrics_timestamps s =
     (let hub_metrics_columns = table_info ''hub_metrics'' s in
      for_each (\<lambda>column s. add_if_not_in hub_metrics_columns ''hub_metrics'' column Null s)
        hub_metrics_timestamp_columns s)"

definition add_capabilities_columns :: "store \<Rightarrow> error + store" where
  "add_capabilities_columns s =
     (let capabilities_columns = table_info ''hub_capabilities'' s in
      andthen (add_if_not_in capabilities_columns ''hub_capabilities'' ''capability_updated_at'' Null s)
        (\<lambda>s. if ''headcount'' \<notin> set capabilities_columns
              then add_column_if_not_exists ''hub_capabilities'' ''headcount'' (Num 0) s
              else Inr s))"

definition add_client_columns :: "store \<Rightarrow> error + store" where
  "add_client_columns s =
     (let client_columns = table_info ''client_metrics'' s in
      andthen (add_if_not_in client_columns ''client_metrics'' ''employee_count'' (Num 0) s) (\<lambda>s.
      andthen (add_if_not_in client_columns ''client_metrics'' ''client_updated_at'' Null s) (\<lambda>s.
      andthen (add_if_not_in client_columns ''client_metrics'' ''capability_name'' Null s) (\<lambda>s.
      add_if_not_in client_columns ''client_metrics'' ''relationship_duration'' Null s))))"

definition add_people_columns :: "store \<Rightarrow> error + store" where
  "add_people_columns s =
     (let people_columns = table_info ''people_metrics'' s in
      andthen (if ''date_created'' \<notin> set people_columns
               then andthen (alter_table_add_column ''people_metrics'' ''date_created'' Null s)
                      (sql_update ''people_metrics'' [''date_created'', ''updated_at'']
                         (\<lambda>r. value_of r ''date_created'' = Null)
                         (\<lambda>r. set_col ''date_created'' (value_of r ''updated_at'') r))
               else Inr s)
        (add_if_not_in people_columns ''people_metrics'' ''people_metric_updated_at'' Null))"

text \<open>
  \<^verbatim>\<open>setup_database()\<close>, in the order of the source. An \<open>Inl\<close> result is an exception that
  leaves the function.
\<close>

definition setup_database :: "(string \<Rightarrow> string) \<Rightarrow> string \<Rightarrow> store \<Rightarrow> error + store" where
  "setup_database sha256 now s =
     andthen (add_hub_metrics_columns (create_tables_1 s)) (\<lambda>s.
     andthen (seed_hubs now (create_tables_2 s)) (\<lambda>s.
     andthen (seed_users sha256 now s) (\<lambda>s.
     andthen (add_hub_metrics_timestamps s) (\<lambda>s.
     andthen (add_capabilities_columns s) (\<lambda>s.
     andthen (add_client_columns s) (\<lambda>s.
     andthen (add_people_columns s) (\<lambda>s.
     for_each (initialize_timestamps now) tables_to_update s)))))))"


section \<open>Repository operations\<close>

subsection \<open>update_hub_metrics\<close>

text \<open>The dictionary \<^verbatim>\<open>metrics_data\<close>; \<^verbatim>\<open>metrics_data[k]\<close> raises KeyError for a missing key.\<close>

type_synonym dict = "string \<rightharpoonup> cell"

definition subscript :: "dict \<Rightarrow> string \<Rightarrow> error + cell" where
  "subscript d k = (case d k of None \<Rightarrow> Inl KeyError | Some v \<Rightarrow> Inr v)"

text \<open>\<^verbatim>\<open>if k not in d: d[k] = v\<close>.\<close>

definition set_if_missing :: "string \<Rightarrow> cell \<Rightarrow> dict \<Rightarrow> dict" where
  "set_if_missing k v d = (if d k = None then d(k \<mapsto> v) else d)"

text \<open>
  The first block of \<^verbatim>\<open>update_hub_metrics\<close>: when a gender key is missing, read the stored
  percentages of the row with the given id and fill the missing keys with them, or with 0
  when there is no such row.
\<close>

definition preserve_gender :: "dict \<Rightarrow> store \<Rightarrow> error + dict" where
  "preserve_gender metrics_data s =
     (if metrics_data ''female_percent'' = None \<or> metrics_data ''male_percent'' = None
         \<or> metrics_data ''other_gender_percent'' = None
      then andthen (subscript metrics_data ''id'') (\<lambda>id.
           andthen (sql_select ''hub_metrics''
                      [''female_percent'', ''male_percent'', ''other_gender_percent'', ''id'']
                      (\<lambda>r. sql_eq (value_of r ''id'') id) s) (\<lambda>found.
             Inr (case found of
                    current_metrics # _ \<Rightarrow>
                      set_if_missing ''other_gender_percent''
                          (value_of current_metrics ''other_gender_percent'')
                        (set_if_missing ''male_percent'' (value_of current_metrics ''male_percent'')
                          (set_if_missing ''female_percent''
                             (value_of current_metrics ''female_percent'') metrics_data))
                  | [] \<Rightarrow>
                      set_if_missing ''other_gender_percent'' (Num 0)
                        (set_if_missing ''male_percent'' (Num 0)
                          (set_if_missing ''female_percent'' (Num 0) metrics_data)))))
      else Inr metrics_data)"

definition core_fields :: "string list" where
  "core_fields =
     [''total_headcount'', ''total_seats'', ''total_clients'', ''services_offered'',
      ''female_percent'', ''male_percent'', ''other_gender_percent'', ''campus_type'',
      ''sez_status'', ''location'', ''coverage_hours'', ''transport_facilities'', ''updated_by'']"

definition optional_fields :: "string list" where
  "optional_fields = [''bench_count'', ''location_headcounts'', ''certifications'']"

text \<open>\<^verbatim>\<open>params.extend([metrics_data['total_headcount'], ...])\<close>, paired with the columns.\<close>

fun core_params :: "dict \<Rightarrow> string list \<Rightarrow> error + (string \<times> cell) list" where
  "core_params d [] = Inr []"
| "core_params d (k # ks) =
     andthen (subscript d k) (\<lambda>v. andthen (core_params d ks) (\<lambda>rest. Inr ((k, v) # rest)))"

fun optional_params :: "dict \<Rightarrow> string list \<Rightarrow> (string \<times> cell) list" where
  "optional_params d [] = []"
| "optional_params d (k # ks) =
     (case d k of None \<Rightarrow> optional_params d ks | Some v \<Rightarrow> (k, v) # optional_params d ks)"

text \<open>
  The statement built by \<^verbatim>\<open>update_hub_metrics\<close>: the core columns, \<^verbatim>\<open>updated_at =
  CURRENT_TIMESTAMP\<close>, and the optional columns present in the dictionary, for the rows
  \<^verbatim>\<open>WHERE id = ?\<close>.
\<close>

definition hub_metrics_statement :: "string \<Rightarrow> dict \<Rightarrow> store \<Rightarrow> error + store" where
  "hub_metrics_statement now metrics_data s =
     andthen (core_params metrics_data core_fields) (\<lambda>core.
     andthen (subscript metrics_data ''id'') (\<lambda>id.
       (let sets = core @ [(''updated_at'', Text now)] @ optional_params metrics_data optional_fields
        in sql_update ''hub_metrics'' (map fst sets @ [''id''])
             (\<lambda>r. sql_eq (value_of r ''id'') id) (set_cols sets) s)))"

text \<open>
  \<^verbatim>\<open>update_hub_metrics(metrics_data)\<close>: any exception is caught, the function returns False
  and the store is as before.
\<close>

definition update_hub_metrics :: "string \<Rightarrow> dict \<Rightarrow> store \<Rightarrow> bool \<times> store" where
  "update_hub_metrics now metrics_data s =
     (case andthen (preserve_gender metrics_data s) (\<lambda>md. hub_metrics_statement now md s) of
        Inr s' \<Rightarrow> (True, s')
      | Inl e \<Rightarrow> (False, s))"

definition table_rows :: "string \<Rightarrow> store \<Rightarrow> row list" where
  "table_rows name s = (case map_of s name of None \<Rightarrow> [] | Some tb \<Rightarrow> rows tb)"

subsection \<open>Adding a capability\<close>

datatype notice = Error_notice string | Success_notice string

text \<open>
  The handler of the form \<^verbatim>\<open>add_capability_form\<close> in \<^verbatim>\<open>show_capabilities_view\<close>, from
  \<^verbatim>\<open>if submit_button and new_capability_name\<close> on, with the button pressed. \<open>hub_id\<close> is
  \<^verbatim>\<open>int(hub_id)\<close>. The text of a caught exception is left out of the message.
\<close>

definition add_capability ::
    "int \<Rightarrow> string \<Rightarrow> string \<Rightarrow> int \<Rightarrow> string \<Rightarrow> string \<Rightarrow> store \<Rightarrow> notice option \<times> store" where
  "add_capability hub_id new_capability_name default_category headcount current_hub now s =
     (if new_capability_name = [] then (None, s)
      else
        (case sql_select ''hub_capabilities'' [''id'', ''hub_id'', ''capability_name'']
                (\<lambda>r. sql_eq (value_of r ''hub_id'') (Num hub_id)
                      \<and> sql_eq (value_of r ''capability_name'') (Text new_capability_name)) s of
           Inl e \<Rightarrow> (Some (Error_notice ''Error adding capability''), s)
         | Inr existing \<Rightarrow>
             if existing \<noteq> []
             then (Some (Error_notice
                     (''Service '' @ [CHR 0x27] @ new_capability_name @ [CHR 0x27]
                        @ '' already exists for this hub'')), s)
             else
               (case insert_into ''hub_capabilities''
                       [(''hub_id'', Num hub_id), (''capability_name'', Text new_capability_name),
                        (''capability_category'', Text default_category),
                        (''headcount'', Num headcount), (''updated_at'', Text now),
                        (''updated_by'', Text current_hub),
                        (''capability_updated_at'', Text now)] now s of
                  Inl e \<Rightarrow> (Some (Error_notice ''Error adding capability''), s)
                | Inr s' \<Rightarrow>
                    (Some (Success_notice
                       (''Added '' @ [CHR 0x27] @ new_capability_name @ [CHR 0x27]
                          @ '' to hub capabilities!'')), s'))))"

subsection \<open>Gender percentages\<close>

text \<open>
  A row of \<^verbatim>\<open>edited_df\<close> in \<^verbatim>\<open>handle_gender_category\<close>. The column \<^verbatim>\<open>Total\<close> is disabled
  in the editor: it is the sum computed when the table was built from the stored counts.
\<close>

record gender_row =
  Time_Period :: string
  Female :: int
  Male :: int
  Other_Gender :: int
  Total :: int

text \<open>\<^verbatim>\<open>(count / total) * 100\<close>; dividing by zero raises.\<close>

definition percentage :: "int \<Rightarrow> int \<Rightarrow> error + real" where
  "percentage n d =
     (if d = 0 then Inl ZeroDivisionError else Inr (real_of_int n / real_of_int d * 100))"

text \<open>
  The block under \<^verbatim>\<open>if save_success\<close>: \<^verbatim>\<open>Also update the percentage values in hub_metrics\<close>.
\<close>

definition update_gender_percentages ::
    "gender_row list \<Rightarrow> string \<Rightarrow> cell \<Rightarrow> string \<Rightarrow> store \<Rightarrow> error + store" where
  "update_gender_percentages edited_df current_hub hub_id now s =
     (case edited_df of
        [] \<Rightarrow> Inr s
      | latest_row # _ \<Rightarrow>
          if Total latest_row > 0
          then andthen (percentage (Female latest_row) (Total latest_row)) (\<lambda>female_pct.
               andthen (percentage (Male latest_row) (Total latest_row)) (\<lambda>male_pct.
               andthen (percentage (Other_Gender latest_row) (Total latest_row)) (\<lambda>other_pct.
                 sql_update ''hub_metrics''
                   [''female_percent'', ''male_percent'', ''other_gender_percent'', ''updated_at'',
                    ''updated_by'', ''hub_id'']
                   (\<lambda>r. sql_eq (value_of r ''hub_id'') hub_id)
                   (set_cols [(''female_percent'', Real female_pct), (''male_percent'', Real male_pct),
                              (''other_gender_percent'', Real other_pct),
                              (''updated_at'', Text now), (''updated_by'', Text current_hub)]) s)))
          else Inr s)"


section \<open>Aggregate reconciler\<close>

subsection \<open>get_people_metrics\<close>

text \<open>The comparison \<^verbatim>\<open>a != b\<close> of SQL.\<close>

definition sql_ne :: "cell \<Rightarrow> cell \<Rightarrow> bool" where
  "sql_ne a b = (a \<noteq> Null \<and> b \<noteq> Null \<and> \<not> sql_eq a b)"

text \<open>
  The order of \<^verbatim>\<open>ORDER BY\<close> on cells: NULL first, then numbers by value, then text by
  bytes.
\<close>

fun cell_le :: "cell \<Rightarrow> cell \<Rightarrow> bool" where
  "cell_le Null _ = True"
| "cell_le _ Null = False"
| "cell_le (Num a) (Num b) = (a \<le> b)"
| "cell_le (Num a) (Real b) = (of_int a \<le> b)"
| "cell_le (Real a) (Num b) = (a \<le> of_int b)"
| "cell_le (Real a) (Real b) = (a \<le> b)"
| "cell_le (Text a) (Text b) = (a \<le> b)"
| "cell_le (Text a) _ = False"
| "cell_le _ (Text b) = True"

fun order_le :: "string list \<Rightarrow> row \<Rightarrow> row \<Rightarrow> bool" where
  "order_le [] a b = True"
| "order_le (k # ks) a b =
     (if cell_le (value_of a k) (value_of b k)
      then (if cell_le (value_of b k) (value_of a k) then order_le ks a b else True)
      else False)"

fun insert_ordered :: "('a \<Rightarrow> 'a \<Rightarrow> bool) \<Rightarrow> 'a \<Rightarrow> 'a list \<Rightarrow> 'a list" where
  "insert_ordered le x [] = [x]"
| "insert_ordered le x (y # ys) = (if le y x then y # insert_ordered le x ys else x # y # ys)"

text \<open>\<^verbatim>\<open>ORDER BY k1, k2, ...\<close>; rows that agree on every key keep the order of the table.\<close>

definition order_by :: "string list \<Rightarrow> row list \<Rightarrow> row list" where
  "order_by ks rs = foldl (\<lambda>acc r. insert_ordered (order_le ks) r acc) [] rs"

text \<open>
  \<^verbatim>\<open>get_people_metrics(hub_name)\<close> with no category: the people metrics joined with their
  hub, the hub's name in front. A hub user sees the rows of the hub, the category
  \<^verbatim>\<open>Hiring\<close> left out; \<^verbatim>\<open>ALL\<close> sees every row.
\<close>

definition get_people_metrics :: "string \<Rightarrow> store \<Rightarrow> error + row list" where
  "get_people_metrics hub_name s =
     andthen (sql_select ''hubs'' [''id'', ''hub_name''] (\<lambda>h. True) s) (\<lambda>hubs.
     andthen (sql_select ''people_metrics''
                [''hub_id'', ''metric_category'', ''metric_name'', ''time_period''] (\<lambda>p. True) s)
       (\<lambda>people.
          (let joined = concat (map (\<lambda>p. map (\<lambda>h. (''hub_name'', value_of h ''hub_name'') # p)
                                    (filter (\<lambda>h. sql_eq (value_of p ''hub_id'') (value_of h ''id'')) hubs))
                                  people)
           in if hub_name = ''ALL''
              then Inr (order_by [''hub_name'', ''metric_category'', ''metric_name'', ''time_period'']
                          joined)
              else Inr (order_by [''metric_category'', ''metric_name'', ''time_period'']
                          (filter (\<lambda>r. sql_eq (value_of r ''hub_name'') (Text hub_name)
                                        \<and> sql_ne (value_of r ''metric_category'') (Text ''Hiring''))
                             joined)))))"

subsection \<open>The total headcount of show_hub_metrics_view\<close>

text \<open>\<^verbatim>\<open>Series.unique()\<close>: the values in order of first appearance.\<close>

definition unique :: "'a list \<Rightarrow> 'a list" where
  "unique xs = rev (remdups (rev xs))"

text \<open>
  \<^verbatim>\<open>pd.to_datetime(x, format="%b %Y", errors='coerce')\<close> is a parameter \<open>to_datetime\<close> of the
  model: the month as a number (12 * year + month - 1), or \<open>None\<close> for NaT. Every comparison
  with NaT is false.
\<close>

definition timestamp_lt :: "int option \<Rightarrow> int option \<Rightarrow> bool" where
  "timestamp_lt a b = (case a of None \<Rightarrow> False | Some x \<Rightarrow> (case b of None \<Rightarrow> False | Some y \<Rightarrow> x < y))"

text \<open>
  \<^verbatim>\<open>sorted(xs, key=key, reverse=True)\<close>. Python's sort is stable and compares keys with
  \<^verbatim>\<open><\<close> only; with \<^verbatim>\<open>reverse=True\<close> it reverses the list, sorts it ascending and reverses the
  result. The ascending sort is written as an insertion sort: each element goes in front of
  the first element it is less than. For keys that are totally ordered every stable sort
  returns this list; so does every stable sort of two elements neither of which is less than
  the other, which is the only case with NaT keys that is evaluated below.
\<close>

fun insert_sorted :: "('a \<Rightarrow> 'a \<Rightarrow> bool) \<Rightarrow> 'a \<Rightarrow> 'a list \<Rightarrow> 'a list" where
  "insert_sorted lt x [] = [x]"
| "insert_sorted lt x (y # ys) = (if lt x y then x # y # ys else y # insert_sorted lt x ys)"

definition sorted_reverse :: "('a \<Rightarrow> int option) \<Rightarrow> 'a list \<Rightarrow> 'a list" where
  "sorted_reverse key xs =
     rev (foldl (\<lambda>acc x. insert_sorted (\<lambda>a b. timestamp_lt (key a) (key b)) x acc) [] (rev xs))"

text \<open>The truth value of a cell in \<^verbatim>\<open>if latest_time_period:\<close>.\<close>

fun truthy :: "cell \<Rightarrow> bool" where
  "truthy Null = False"
| "truthy (Num n) = (n \<noteq> 0)"
| "truthy (Real x) = (x \<noteq> 0)"
| "truthy (Text t) = (t \<noteq> [])"

text \<open>\<^verbatim>\<open>a + b\<close> on the values of a dataframe; NaN absorbs, text and numbers do not add.\<close>

fun py_add :: "cell \<Rightarrow> cell \<Rightarrow> error + cell" where
  "py_add (Num a) (Num b) = Inr (Num (a + b))"
| "py_add (Num a) (Real b) = Inr (Real (of_int a + b))"
| "py_add (Real a) (Num b) = Inr (Real (a + of_int b))"
| "py_add (Real a) (Real b) = Inr (Real (a + b))"
| "py_add (Text a) (Text b) = Inr (Text (a @ b))"
| "py_add (Text a) _ = Inl TypeError"
| "py_add _ (Text b) = Inl TypeError"
| "py_add Null _ = Inr Null"
| "py_add _ Null = Inr Null"

definition employment_type_df :: "row list \<Rightarrow> row list" where
  "employment_type_df people_metrics_df =
     filter (\<lambda>r. value_of r ''metric_category'' = Text ''Employment Type'') people_metrics_df"

definition latest_time_period :: "(cell \<Rightarrow> int option) \<Rightarrow> row list \<Rightarrow> cell option" where
  "latest_time_period to_datetime people_metrics_df =
     (if employment_type_df people_metrics_df = [] then None
      else (case sorted_reverse to_datetime
                   (unique (map (\<lambda>r. value_of r ''time_period'') (employment_type_df people_metrics_df))) of
              [] \<Rightarrow> None
            | p # _ \<Rightarrow> Some p))"

text \<open>\<^verbatim>\<open>row['metric_value'].iloc[0] if not row.empty else 0\<close>.\<close>

definition first_metric_value :: "string \<Rightarrow> row list \<Rightarrow> cell" where
  "first_metric_value metric_name df =
     (case filter (\<lambda>r. value_of r ''metric_name'' = Text metric_name) df of
        [] \<Rightarrow> Num 0
      | r # _ \<Rightarrow> value_of r ''metric_value'')"

definition total_headcount_calculated :: "(cell \<Rightarrow> int option) \<Rightarrow> row list \<Rightarrow> error + cell" where
  "total_headcount_calculated to_datetime people_metrics_df =
     (case latest_time_period to_datetime people_metrics_df of
        None \<Rightarrow> Inr (Num 0)
      | Some p \<Rightarrow>
          if truthy p
          then (let latest_employment_data =
                      filter (\<lambda>r. value_of r ''time_period'' = p) (employment_type_df people_metrics_df)
                in py_add (first_metric_value ''Permanent Employees'' latest_employment_data)
                          (first_metric_value ''Contract Employees'' latest_employment_data))
          else Inr (Num 0))"

text \<open>
  A parser for \<^verbatim>\<open>Mon YYYY\<close>: a three-letter English month abbreviation in any letter case, one
  space, four digits. It is the instance of \<open>to_datetime\<close> used for evaluation.
\<close>

definition month_number :: "string \<Rightarrow> int option" where
  "month_number m =
     map_of [(''jan'', 1), (''feb'', 2), (''mar'', 3), (''apr'', 4), (''may'', 5), (''jun'', 6),
             (''jul'', 7), (''aug'', 8), (''sep'', 9), (''oct'', 10), (''nov'', 11), (''dec'', 12)]
       (lower m)"

fun to_datetime_mon_year :: "cell \<Rightarrow> int option" where
  "to_datetime_mon_year (Text [m1, m2, m3, sp, y1, y2, y3, y4]) =
     (if sp = CHR '' ''
      then (case (month_number [m1, m2, m3], number [y1, y2, y3, y4]) of
              (Some m, Some y) \<Rightarrow> Some (12 * y + m - 1)
            | _ \<Rightarrow> None)
      else None)"
| "to_datetime_mon_year _ = None"

section \<open>Table invariants\<close>

text \<open>
  \<^verbatim>\<open>id INTEGER PRIMARY KEY\<close>: every row has an integer id and no two rows share one.
\<close>

definition integer_primary_key :: "row list \<Rightarrow> bool" where
  "integer_primary_key rs =
     (distinct (map rowid rs) \<and> list_all (\<lambda>r. case value_of r ''id'' of Num n \<Rightarrow> True | _ \<Rightarrow> False) rs)"

subsection \<open>Stores used for evaluation\<close>

text \<open>
  One hub with its metrics row, as \<^verbatim>\<open>setup_database\<close> leaves it: the seeded values, the three
  fine-grained timestamp columns added and initialised.
\<close>

definition sample_hub_metrics_row :: row where
  "sample_hub_metrics_row =
     [(''id'', Num 1), (''hub_id'', Num 1), (''total_headcount'', Num 95), (''total_seats'', Num 76),
      (''total_clients'', Num 12), (''services_offered'', Num 8), (''female_percent'', Real 35),
      (''male_percent'', Real 63), (''other_gender_percent'', Real 2),
      (''campus_type'', Text ''In-Campus''), (''sez_status'', Text ''No''),
      (''location'', Text ''Gurugram''), (''coverage_hours'', Text ''24x5''),
      (''transport_facilities'', Text ''No''), (''updated_at'', Text ''2025-01-01 00:00:00''),
      (''updated_by'', Null), (''bench_count'', Num 0), (''location_headcounts'', Null),
      (''certifications'', Null), (''metrics_updated_at'', Text ''2025-01-01 00:00:00''),
      (''location_updated_at'', Text ''2025-01-01 00:00:00''),
      (''certifications_updated_at'', Text ''2025-01-01 00:00:00'')]"

definition sample_store :: store where
  "sample_store =
     [(''hubs'', hubs_schema\<lparr>rows :=
         [[(''id'', Num 1), (''hub_name'', Text ''AKQA''),
           (''created_at'', Text ''2025-01-01 00:00:00''),
           (''updated_at'', Text ''2025-01-01 00:00:00'')]]\<rparr>),
      (''hub_metrics'', hub_metrics_schema
         \<lparr>cols := cols hub_metrics_schema @ hub_metrics_timestamp_columns,
          rows := [sample_hub_metrics_row]\<rparr>)]"

text \<open>
  The dictionary that \<^verbatim>\<open>show_hub_metrics_view\<close> passes to \<^verbatim>\<open>update_hub_metrics\<close> when the
  form is submitted: no gender keys, new locations and certifications.
\<close>

definition sample_metrics_data :: dict where
  \<open>sample_metrics_data =
     map_of
       [(''id'', Num 1), (''total_headcount'', Num 100), (''total_seats'', Num 80),
        (''total_clients'', Num 5), (''services_offered'', Num 8),
        (''campus_type'', Text ''In-Campus''), (''sez_status'', Text ''No''),
        (''location'', Text ''Gurugram, Pune''),
        (''location_headcounts'', Text ''{"Gurugram": 60, "Pune": 40}''),
        (''certifications'', Text ''{"ISO 27001": 12}''),
        (''coverage_hours'', Text ''24x5''), (''transport_facilities'', Text ''No''),
        (''updated_by'', Text ''AKQA'')]\<close>

text \<open>
  The store of a hub that already has a capability named SEO with 7 employees.
\<close>

definition capability_store :: store where
  "capability_store =
     [(''hub_capabilities'', hub_capabilities_schema\<lparr>rows :=
         [[(''id'', Num 1), (''hub_id'', Num 3), (''capability_name'', Text ''SEO''),
           (''capability_category'', Text ''MEDIA+''), (''headcount'', Num 7),
           (''updated_at'', Text ''2025-01-01 00:00:00''), (''updated_by'', Null),
           (''capability_updated_at'', Text ''2025-01-01 00:00:00'')]]\<rparr>)]"

text \<open>
  The people metrics of a seeded hub to which the month \<^verbatim>\<open>Jan 2025\<close> was added for
  Employment Type: the two seed rows of period \<^verbatim>\<open>2025\<close> (75 permanent, 25 contract) and the two
  rows of \<^verbatim>\<open>Jan 2025\<close> (90 permanent, 20 contract).
\<close>

definition people_row :: "int \<Rightarrow> string \<Rightarrow> real \<Rightarrow> string \<Rightarrow> string \<Rightarrow> row" where
  "people_row i metric_name v category period =
     [(''id'', Num i), (''hub_id'', Num 1), (''metric_name'', Text metric_name),
      (''metric_value'', Real v), (''metric_category'', Text category),
      (''time_period'', Text period), (''hiring_reason'', Null),
      (''updated_at'', Text ''2025-01-01 00:00:00''), (''updated_by'', Null),
      (''people_metric_updated_at'', Text ''2025-01-01 00:00:00'')]"

definition people_store :: store where
  "people_store =
     [(''hubs'', hubs_schema\<lparr>rows :=
         [[(''id'', Num 1), (''hub_name'', Text ''AKQA''),
           (''created_at'', Text ''2025-01-01 00:00:00''),
           (''updated_at'', Text ''2025-01-01 00:00:00'')]]\<rparr>),
      (''people_metrics'', people_metrics_schema\<lparr>rows :=
         [people_row 1 ''Tenure <1 year'' 25 ''Tenure'' ''2025'',
          people_row 2 ''Permanent Employees'' 75 ''Employment Type'' ''2025'',
          people_row 3 ''Contract Employees'' 25 ''Employment Type'' ''2025'',
          people_row 4 ''Contract Employees'' 20 ''Employment Type'' ''Jan 2025'',
          people_row 5 ''Permanent Employees'' 90 ''Employment Type'' ''Jan 2025'']\<rparr>)]"

text \<open>
  A store whose \<^verbatim>\<open>hub_metrics\<close> table declares the column \<^verbatim>\<open>Metrics_Updated_At\<close> with
  capital letters; hubs and users are present, so nothing is seeded.
\<close>

definition drifted_store :: store where
  "drifted_store =
     [(''users'', users_schema\<lparr>rows :=
         [[(''id'', Num 1), (''username'', Text ''admin''), (''password_hash'', Text ''x''),
           (''hub_name'', Text ''ALL''), (''is_admin'', Num 1),
           (''created_at'', Text ''2025-01-01 00:00:00'')]]\<rparr>),
      (''hubs'', hubs_schema\<lparr>rows :=
         [[(''id'', Num 1), (''hub_name'', Text ''AKQA''),
           (''created_at'', Text ''2025-01-01 00:00:00''),
           (''updated_at'', Text ''2025-01-01 00:00:00'')]]\<rparr>),
      (''hub_metrics'', hub_metrics_schema
         \<lparr>cols := cols hub_metrics_schema @ [''Metrics_Updated_At'']\<rparr>)]"

text \<open>
  A store whose \<^verbatim>\<open>hub_capabilities\<close> table declares the column \<^verbatim>\<open>HeadCount\<close> with capital
  letters; hubs and users are present, so nothing is seeded.
\<close>

definition headcount_store :: store where
  "headcount_store =
     [(''users'', users_schema\<lparr>rows :=
         [[(''id'', Num 1), (''username'', Text ''admin''), (''password_hash'', Text ''x''),
           (''hub_name'', Text ''ALL''), (''is_admin'', Num 1),
           (''created_at'', Text ''2025-01-01 00:00:00'')]]\<rparr>),
      (''hubs'', hubs_schema\<lparr>rows :=
         [[(''id'', Num 1), (''hub_name'', Text ''AKQA''),
           (''created_at'', Text ''2025-01-01 00:00:00''),
           (''updated_at'', Text ''2025-01-01 00:00:00'')]]\<rparr>),
      (''hub_capabilities'', hub_capabilities_schema
         \<lparr>cols := [''id'', ''hub_id'', ''capability_name'', ''capability_category'', ''HeadCount'',
                    ''updated_at'', ''updated_by'', ''capability_updated_at'']\<rparr>)]"

section \<open>Predicates on stores\<close>






section \<open>Verified properties\<close>

subsection \<open>Freshness\<close>

text \<open>
  Claim C2. For every timestamp input, \<open>is_outdated\<close> returns a boolean (it has no raising
  branch: every exception of the \<^verbatim>\<open>try\<close> block is caught), and that boolean is true exactly
  when the input is absent, is not parsed by \<^verbatim>\<open>strptime\<close>, or lies more than 30 whole days
  before \<open>now\<close>. In particular, for a timestamp \<open>s\<close> that parses to \<open>t\<close>, the result is
  \<open>(now - t).days > 30\<close>.
\<close>

theorem is_outdated_iff:
  "is_outdated strptime now ts =
     (pd_isna ts \<or> isl (strptime_cell strptime ts)
      \<or> (\<exists>t. strptime_cell strptime ts = Inr t \<and> 30 < timedelta_days now t))
   \<and> (\<forall>s t. strptime s = Some t \<longrightarrow>
          is_outdated strptime now (Text s) = (30 < timedelta_days now t))"
  by (cases ts; cases "strptime_cell strptime ts")
     (auto simp: is_outdated_def split: option.splits sum.splits)

theorem is_outdated_iff_witness:
  "strptime_padded ''2025-01-01 00:00:00''
     = Some \<lparr>year = 2025, month = 1, day = 1, hour = 0, minute = 0, second = 0, microsecond = 0\<rparr>
   \<and> is_outdated strptime_padded
        \<lparr>year = 2025, month = 2, day = 1, hour = 12, minute = 0, second = 0, microsecond = 7\<rparr>
        (Text ''2025-01-01 00:00:00'')
   \<and> \<not> is_outdated strptime_padded
        \<lparr>year = 2025, month = 1, day = 31, hour = 23, minute = 59, second = 59, microsecond = 7\<rparr>
        (Text ''2025-01-01 00:00:00'')"
proof -
  let ?t = "\<lparr>year = 2025, month = 1, day = 1, hour = 0, minute = 0, second = 0, microsecond = 0\<rparr>"
  let ?n1 = "\<lparr>year = 2025, month = 2, day = 1, hour = 12, minute = 0, second = 0, microsecond = 7\<rparr>"
  let ?n2 = "\<lparr>year = 2025, month = 1, day = 31, hour = 23, minute = 59, second = 59, microsecond = 7\<rparr>"
  have p: "strptime_padded ''2025-01-01 00:00:00'' = Some ?t"
    by (simp add: make_datetime_def digit_def days_in_month_def)
  have d1: "timedelta_days ?n1 ?t = 31"
    by code_simp
  have d2: "timedelta_days ?n2 ?t = 30"
    by code_simp
  from is_outdated_iff [of strptime_padded ?n1 "Text ''2025-01-01 00:00:00''"] p d1
  have a: "is_outdated strptime_padded ?n1 (Text ''2025-01-01 00:00:00'')"
    by (simp del: strptime_padded.simps)
  from is_outdated_iff [of strptime_padded ?n2 "Text ''2025-01-01 00:00:00''"] p d2
  have b: "\<not> is_outdated strptime_padded ?n2 (Text ''2025-01-01 00:00:00'')"
    by (simp del: strptime_padded.simps)
  from p a b show ?thesis by (simp del: strptime_padded.simps)
qed

text \<open>
  Claim C3, as stated, fails: the colouring enters its warning tier at 30 elapsed days, while
  \<open>is_outdated\<close> is still false there (it needs more than 30). At 30 days and some hours the
  cell is yellow and not outdated.
\<close>

theorem color_by_days_boundary_counterexample:
  "color_by_days strptime_padded
     \<lparr>year = 2025, month = 1, day = 31, hour = 23, minute = 59, second = 59, microsecond = 7\<rparr>
     (Text ''2025-01-01 00:00:00'') = ''background-color: #FFFF99''
   \<and> \<not> is_outdated strptime_padded
     \<lparr>year = 2025, month = 1, day = 31, hour = 23, minute = 59, second = 59, microsecond = 7\<rparr>
     (Text ''2025-01-01 00:00:00'')"
proof -
  let ?t = "\<lparr>year = 2025, month = 1, day = 1, hour = 0, minute = 0, second = 0, microsecond = 0\<rparr>"
  let ?n = "\<lparr>year = 2025, month = 1, day = 31, hour = 23, minute = 59, second = 59, microsecond = 7\<rparr>"
  have p: "strptime_padded ''2025-01-01 00:00:00'' = Some ?t"
    by (simp add: make_datetime_def digit_def days_in_month_def)
  have d: "timedelta_days ?n ?t = 30"
    by code_simp
  show ?thesis
    by (simp add: color_by_days_def is_outdated_def p d del: strptime_padded.simps)
qed

text \<open>
  Claim C3, amended. For a timestamp that parses to \<open>t\<close>, with \<open>d = (now - t).days\<close> the
  same day count that \<open>is_outdated\<close> uses: the cell is green for \<open>d < 30\<close>, yellow for
  \<open>30 \<le> d \<le> 34\<close> and red for \<open>d > 35\<close>; \<open>is_outdated\<close> holds exactly for \<open>d > 30\<close>. So the
  warning tier starts at day 30, one day before \<open>is_outdated\<close> becomes true, and away from
  \<open>d = 30\<close> a cell is green exactly when it is not outdated.
\<close>

theorem color_by_days_tiers:
  assumes "strptime s = Some t"
  shows "(timedelta_days now t < 30 \<longrightarrow>
            color_by_days strptime now (Text s) = ''background-color: #99FF99'')
       \<and> (30 \<le> timedelta_days now t \<and> timedelta_days now t \<le> 34 \<longrightarrow>
            color_by_days strptime now (Text s) = ''background-color: #FFFF99'')
       \<and> (35 < timedelta_days now t \<longrightarrow>
            color_by_days strptime now (Text s) = ''background-color: #FF9999'')
       \<and> is_outdated strptime now (Text s) = (30 < timedelta_days now t)
       \<and> (timedelta_days now t \<noteq> 30 \<longrightarrow>
            (color_by_days strptime now (Text s) = ''background-color: #99FF99'')
              = (\<not> is_outdated strptime now (Text s)))"
  using assms by (simp add: color_by_days_def is_outdated_def Let_def)

theorem color_by_days_tiers_witness:
  "strptime_padded ''2025-01-01 00:00:00''
     = Some \<lparr>year = 2025, month = 1, day = 1, hour = 0, minute = 0, second = 0, microsecond = 0\<rparr>
   \<and> color_by_days strptime_padded
        \<lparr>year = 2025, month = 2, day = 1, hour = 12, minute = 0, second = 0, microsecond = 7\<rparr>
        (Text ''2025-01-01 00:00:00'') = ''background-color: #FFFF99''
   \<and> is_outdated strptime_padded
        \<lparr>year = 2025, month = 2, day = 1, hour = 12, minute = 0, second = 0, microsecond = 7\<rparr>
        (Text ''2025-01-01 00:00:00'')"
proof -
  let ?t = "\<lparr>year = 2025, month = 1, day = 1, hour = 0, minute = 0, second = 0, microsecond = 0\<rparr>"
  let ?n = "\<lparr>year = 2025, month = 2, day = 1, hour = 12, minute = 0, second = 0, microsecond = 7\<rparr>"
  have p: "strptime_padded ''2025-01-01 00:00:00'' = Some ?t"
    by (simp add: make_datetime_def digit_def days_in_month_def)
  have d: "timedelta_days ?n ?t = 31"
    by code_simp
  from color_by_days_tiers [of strptime_padded "''2025-01-01 00:00:00''" ?t ?n] d p show ?thesis
    by (simp del: strptime_padded.simps)
qed


subsection \<open>Rows, tables and statements\<close>

lemma value_of_set_col: "value_of (set_col c v r) k = (if k = c then v else value_of r k)"
  by (simp add: value_of_def set_col_def update_conv')

lemma value_of_set_cols_other:
  "k \<notin> fst ` set cvs \<Longrightarrow> value_of (set_cols cvs r) k = value_of r k"
  by (induction cvs arbitrary: r) (auto simp: value_of_set_col)

lemma value_of_set_cols_same:
  "k \<in> fst ` set cvs \<Longrightarrow> \<forall>v'. (k, v') \<in> set cvs \<longrightarrow> v' = v \<Longrightarrow> value_of (set_cols cvs r) k = v"
proof (induction cvs arbitrary: r)
  case Nil
  then show ?case by simp
next
  case (Cons cv cvs)
  obtain c w where cv: "cv = (c, w)" by (cases cv)
  show ?case
  proof (cases "k \<in> fst ` set cvs")
    case True
    with Cons show ?thesis by (simp add: cv)
  next
    case False
    with Cons.prems have "c = k" "w = v" by (auto simp: cv)
    with False show ?thesis by (simp add: cv value_of_set_cols_other value_of_set_col)
  qed
qed

lemma map_of_update_same: "map_of (AList.update k v al) k = Some v"
  by (simp add: update_conv')

lemma map_of_update_other: "k' \<noteq> k \<Longrightarrow> map_of (AList.update k v al) k' = map_of al k'"
  by (simp add: update_conv')

lemma table_rows_update_same: "table_rows name (AList.update name tb s) = rows tb"
  by (simp add: table_rows_def update_conv')

lemma table_rows_update_other: "n \<noteq> name \<Longrightarrow> table_rows n (AList.update name tb s) = table_rows n s"
  by (simp add: table_rows_def update_conv')

lemma andthen_Inr: "andthen m f = Inr y \<Longrightarrow> \<exists>x. m = Inr x \<and> f x = Inr y"
  by (cases m) auto

lemma sql_update_Inr:
  "sql_update name refs P f s = Inr s' \<Longrightarrow>
     \<exists>tb. map_of s name = Some tb \<and> list_all (\<lambda>c. c \<in> set (column_keys tb)) refs
        \<and> s' = AList.update name (tb\<lparr>rows := map (\<lambda>r. if P r then f r else r) (rows tb)\<rparr>) s"
  by (auto simp: sql_update_def split: option.splits if_splits)

lemma sql_select_Inr:
  "sql_select name refs P s = Inr rs \<Longrightarrow>
     \<exists>tb. map_of s name = Some tb \<and> list_all (\<lambda>c. c \<in> set (column_keys tb)) refs
        \<and> rs = filter P (rows tb)"
  by (auto simp: sql_select_def split: option.splits if_splits)

lemma core_params_Inr:
  "core_params d ks = Inr core \<Longrightarrow> core = map (\<lambda>k. (k, the (d k))) ks \<and> (\<forall>k \<in> set ks. d k \<noteq> None)"
proof (induction ks arbitrary: core)
  case Nil
  then show ?case by simp
next
  case (Cons k ks)
  from Cons.prems obtain v rest where "subscript d k = Inr v" "core_params d ks = Inr rest"
    "core = (k, v) # rest"
    by (auto dest!: andthen_Inr)
  with Cons.IH [of rest] show ?case
    by (auto simp: subscript_def split: option.splits)
qed

lemma optional_params_keys: "fst ` set (optional_params d ks) \<subseteq> set ks"
  by (induction ks) (auto split: option.splits)

lemma integer_primary_key_Num:
  "integer_primary_key rs \<Longrightarrow> r \<in> set rs \<Longrightarrow> \<exists>n. value_of r ''id'' = Num n"
  by (cases "value_of r ''id''") (auto simp: integer_primary_key_def list_all_iff)

lemma primary_key_match_unique:
  assumes "integer_primary_key rs" "r1 \<in> set rs" "r2 \<in> set rs"
    "sql_eq (value_of r1 ''id'') v" "sql_eq (value_of r2 ''id'') v"
  shows "r1 = r2"
proof -
  from assms(1,2) obtain n1 where n1: "value_of r1 ''id'' = Num n1"
    by (auto dest: integer_primary_key_Num)
  from assms(1,3) obtain n2 where n2: "value_of r2 ''id'' = Num n2"
    by (auto dest: integer_primary_key_Num)
  from assms(4,5) n1 n2 have "n1 = n2" by (cases v) auto
  with n1 n2 have "rowid r1 = rowid r2" by (simp add: rowid_def)
  moreover from assms(1) have "inj_on rowid (set rs)"
    by (simp add: integer_primary_key_def distinct_map)
  ultimately show ?thesis using assms(2,3) by (auto dest: inj_onD)
qed

lemma filter_unique_hd:
  assumes "\<And>a b. a \<in> set rs \<Longrightarrow> b \<in> set rs \<Longrightarrow> P a \<Longrightarrow> P b \<Longrightarrow> a = b" "r \<in> set rs" "P r"
  shows "\<exists>tl. filter P rs = r # tl"
proof -
  from assms(2,3) have "r \<in> set (filter P rs)" by simp
  then obtain x tl where xt: "filter P rs = x # tl" by (cases "filter P rs") auto
  then have "x \<in> set (filter P rs)" by simp
  then have "x \<in> set rs" "P x" by auto
  with assms have "x = r" by blast
  with xt show ?thesis by simp
qed

subsection \<open>Hub metrics updates\<close>

text \<open>
  Claim C10. When \<^verbatim>\<open>metrics_data\<close> has none of the keys \<^verbatim>\<open>female_percent\<close>,
  \<^verbatim>\<open>male_percent\<close>, \<^verbatim>\<open>other_gender_percent\<close>, every row of \<^verbatim>\<open>hub_metrics\<close> has the same
  three percentages after \<^verbatim>\<open>update_hub_metrics\<close> as before, whether the update succeeds or
  raises. The table is taken with its primary key: ids are integers and distinct.
\<close>

theorem omitted_gender_fields_unchanged:
  assumes none: "metrics_data ''female_percent'' = None" "metrics_data ''male_percent'' = None"
      "metrics_data ''other_gender_percent'' = None"
    and pk: "integer_primary_key (table_rows ''hub_metrics'' s)"
  shows "map (\<lambda>r. (value_of r ''female_percent'', value_of r ''male_percent'',
                    value_of r ''other_gender_percent''))
           (table_rows ''hub_metrics'' (snd (update_hub_metrics now metrics_data s)))
       = map (\<lambda>r. (value_of r ''female_percent'', value_of r ''male_percent'',
                    value_of r ''other_gender_percent''))
           (table_rows ''hub_metrics'' s)"
proof (cases "andthen (preserve_gender metrics_data s) (\<lambda>md. hub_metrics_statement now md s)")
  case (Inl e)
  then show ?thesis by (simp add: update_hub_metrics_def)
next
  case (Inr s')
  then obtain md where md: "preserve_gender metrics_data s = Inr md"
    and st: "hub_metrics_statement now md s = Inr s'"
    by (auto dest!: andthen_Inr)
  from md none obtain idv found where idv: "metrics_data ''id'' = Some idv"
    and found: "sql_select ''hub_metrics''
                  [''female_percent'', ''male_percent'', ''other_gender_percent'', ''id'']
                  (\<lambda>r. sql_eq (value_of r ''id'') idv) s = Inr found"
    and mdeq: "md = (case found of
                    current_metrics # _ \<Rightarrow>
                      set_if_missing ''other_gender_percent''
                          (value_of current_metrics ''other_gender_percent'')
                        (set_if_missing ''male_percent'' (value_of current_metrics ''male_percent'')
                          (set_if_missing ''female_percent''
                             (value_of current_metrics ''female_percent'') metrics_data))
                  | [] \<Rightarrow>
                      set_if_missing ''other_gender_percent'' (Num 0)
                        (set_if_missing ''male_percent'' (Num 0)
                          (set_if_missing ''female_percent'' (Num 0) metrics_data)))"
    by (auto simp: preserve_gender_def subscript_def split: option.splits dest!: andthen_Inr)
  from found obtain tb where tb: "map_of s ''hub_metrics'' = Some tb"
    and feq: "found = filter (\<lambda>r. sql_eq (value_of r ''id'') idv) (rows tb)"
    by (auto dest!: sql_select_Inr)
  have mdid: "md ''id'' = Some idv"
    using idv by (simp add: mdeq set_if_missing_def split: list.splits)
  from st obtain core where core: "core_params md core_fields = Inr core"
    and upd: "sql_update ''hub_metrics''
               (map fst (core @ (''updated_at'', Text now) # optional_params md optional_fields) @ [''id''])
               (\<lambda>r. sql_eq (value_of r ''id'') idv)
               (set_cols (core @ (''updated_at'', Text now) # optional_params md optional_fields)) s = Inr s'"
    using mdid
    by (auto simp: hub_metrics_statement_def subscript_def Let_def dest!: andthen_Inr)
  let ?sets = "core @ (''updated_at'', Text now) # optional_params md optional_fields"
  from sql_update_Inr [OF upd] tb have s': "s' = AList.update ''hub_metrics''
       (tb\<lparr>rows := map (\<lambda>r. if sql_eq (value_of r ''id'') idv then set_cols ?sets r else r) (rows tb)\<rparr>) s"
    by clarsimp
  from core have coreeq: "core = map (\<lambda>k. (k, the (md k))) core_fields"
    by (auto dest: core_params_Inr)
  have setval: "value_of (set_cols ?sets r) k = the (md k)"
    if "k \<in> {''female_percent'', ''male_percent'', ''other_gender_percent''}" for r k
  proof (rule value_of_set_cols_same)
    from that show "k \<in> fst ` set ?sets"
      by (auto simp: coreeq core_fields_def)
    show "\<forall>v'. (k, v') \<in> set ?sets \<longrightarrow> v' = the (md k)"
    proof (intro allI impI)
      fix v' assume "(k, v') \<in> set ?sets"
      then consider "(k, v') \<in> set core" | "k = ''updated_at''"
        | "(k, v') \<in> set (optional_params md optional_fields)" by auto
      then show "v' = the (md k)"
      proof cases
        case 1
        then show ?thesis by (auto simp: coreeq)
      next
        case 2
        with that show ?thesis by auto
      next
        case 3
        then have "k \<in> set optional_fields"
          using optional_params_keys [of md optional_fields] by force
        with that show ?thesis by (auto simp: optional_fields_def)
      qed
    qed
  qed
  have keep: "(\<lambda>r. (value_of r ''female_percent'', value_of r ''male_percent'',
                    value_of r ''other_gender_percent''))
               (if sql_eq (value_of r ''id'') idv then set_cols ?sets r else r)
            = (value_of r ''female_percent'', value_of r ''male_percent'',
                    value_of r ''other_gender_percent'')"
    if r: "r \<in> set (rows tb)" for r
  proof (cases "sql_eq (value_of r ''id'') idv")
    case False
    then show ?thesis by simp
  next
    case True
    from pk tb have pk': "integer_primary_key (rows tb)" by (simp add: table_rows_def)
    have "\<exists>tl. filter (\<lambda>r. sql_eq (value_of r ''id'') idv) (rows tb) = r # tl"
      using primary_key_match_unique [OF pk'] r True
      by (intro filter_unique_hd [where P = "\<lambda>r. sql_eq (value_of r ''id'') idv"]) blast+
    then obtain tl where "found = r # tl" by (auto simp: feq)
    then have "md ''female_percent'' = Some (value_of r ''female_percent'')"
      "md ''male_percent'' = Some (value_of r ''male_percent'')"
      "md ''other_gender_percent'' = Some (value_of r ''other_gender_percent'')"
      using none by (simp_all add: mdeq set_if_missing_def)
    with True show ?thesis by (simp add: setval)
  qed
  have "table_rows ''hub_metrics'' s' = map (\<lambda>r. if sql_eq (value_of r ''id'') idv then set_cols ?sets r else r) (rows tb)"
    by (simp add: s' table_rows_update_same)
  moreover have "table_rows ''hub_metrics'' s = rows tb"
    using tb by (simp add: table_rows_def)
  ultimately show ?thesis
    using Inr keep by (simp add: update_hub_metrics_def)
qed

theorem omitted_gender_fields_unchanged_witness:
  "sample_metrics_data ''female_percent'' = None \<and> sample_metrics_data ''male_percent'' = None
   \<and> sample_metrics_data ''other_gender_percent'' = None
   \<and> integer_primary_key (table_rows ''hub_metrics'' sample_store)
   \<and> fst (update_hub_metrics ''2025-03-01 10:00:00'' sample_metrics_data sample_store)
   \<and> map (\<lambda>r. (value_of r ''female_percent'', value_of r ''male_percent'',
                  value_of r ''other_gender_percent''))
         (table_rows ''hub_metrics''
            (snd (update_hub_metrics ''2025-03-01 10:00:00'' sample_metrics_data sample_store)))
       = [(Real 35, Real 63, Real 2)]"
proof -
  have n: "sample_metrics_data ''female_percent'' = None"
    "sample_metrics_data ''male_percent'' = None"
    "sample_metrics_data ''other_gender_percent'' = None"
    by (simp_all add: sample_metrics_data_def)
  have k: "integer_primary_key (table_rows ''hub_metrics'' sample_store)"
    by code_simp
  have u: "fst (update_hub_metrics ''2025-03-01 10:00:00'' sample_metrics_data sample_store)"
    by code_simp
  have b: "map (\<lambda>r. (value_of r ''female_percent'', value_of r ''male_percent'',
                  value_of r ''other_gender_percent'')) (table_rows ''hub_metrics'' sample_store)
       = [(Real 35, Real 63, Real 2)]"
    by code_simp
  from omitted_gender_fields_unchanged [OF n k, of "''2025-03-01 10:00:00''"] n k u b
  show ?thesis by simp
qed

text \<open>
  Claim C9 holds for capabilities, clients and people metrics, whose update statements set
  both \<^verbatim>\<open>updated_at\<close> and their fine-grained timestamp, but not for hub metrics: the statement
  of \<^verbatim>\<open>update_hub_metrics\<close> sets \<^verbatim>\<open>updated_at\<close> only. Submitting new locations, certifications
  and seats for a row last stamped on 2025-01-01 changes those fields and \<^verbatim>\<open>updated_at\<close>, and
  leaves \<^verbatim>\<open>metrics_updated_at\<close>, \<^verbatim>\<open>location_updated_at\<close> and \<^verbatim>\<open>certifications_updated_at\<close> at
  2025-01-01.
\<close>

theorem update_hub_metrics_leaves_fine_grained_timestamps:
  \<open>fst (update_hub_metrics ''2025-03-01 10:00:00'' sample_metrics_data sample_store)
   \<and> map (\<lambda>r. (value_of r ''total_seats'', value_of r ''location'', value_of r ''certifications'',
                  value_of r ''updated_at''))
         (table_rows ''hub_metrics''
            (snd (update_hub_metrics ''2025-03-01 10:00:00'' sample_metrics_data sample_store)))
       = [(Num 80, Text ''Gurugram, Pune'', Text ''{"ISO 27001": 12}'', Text ''2025-03-01 10:00:00'')]
   \<and> map (\<lambda>r. (value_of r ''metrics_updated_at'', value_of r ''location_updated_at'',
                  value_of r ''certifications_updated_at''))
         (table_rows ''hub_metrics''
            (snd (update_hub_metrics ''2025-03-01 10:00:00'' sample_metrics_data sample_store)))
       = [(Text ''2025-01-01 00:00:00'', Text ''2025-01-01 00:00:00'', Text ''2025-01-01 00:00:00'')]\<close>
  by code_simp

subsection \<open>Total headcount\<close>

text \<open>
  Claim C1 describes what the code sets out to do (\<^verbatim>\<open>reverse=True  # Newest first\<close>), but the
  code misses it on a seeded hub: the seed rows of Employment Type carry the period
  \<^verbatim>\<open>2025\<close>, which \<^verbatim>\<open>%b %Y\<close> does not parse, and a NaT key is never less than another key.
  With the seed rows (75 + 25) and the rows of \<^verbatim>\<open>Jan 2025\<close> (90 + 20), the periods are listed
  as \<^verbatim>\<open>2025\<close>, \<^verbatim>\<open>Jan 2025\<close>, the sort leaves them in that order, and the total is 100, not the
  110 of the latest month.
\<close>

theorem total_headcount_ignores_later_month:
  "(case get_people_metrics ''AKQA'' people_store of
      Inl e \<Rightarrow> False
    | Inr people_metrics_df \<Rightarrow>
        map (\<lambda>r. (value_of r ''metric_name'', value_of r ''time_period'', value_of r ''metric_value''))
            (employment_type_df people_metrics_df)
          = [(Text ''Contract Employees'', Text ''2025'', Real 25),
             (Text ''Contract Employees'', Text ''Jan 2025'', Real 20),
             (Text ''Permanent Employees'', Text ''2025'', Real 75),
             (Text ''Permanent Employees'', Text ''Jan 2025'', Real 90)]
        \<and> map to_datetime_mon_year [Text ''2025'', Text ''Jan 2025''] = [None, Some 24300]
        \<and> latest_time_period to_datetime_mon_year people_metrics_df = Some (Text ''2025'')
        \<and> total_headcount_calculated to_datetime_mon_year people_metrics_df = Inr (Real 100))"
  by code_simp

subsection \<open>Gender percentages\<close>

lemma sql_update_error: "sql_update name refs P f s = Inl e \<Longrightarrow> e = OperationalError"
  by (auto simp: sql_update_def split: option.splits if_splits)

lemma sql_update_rows:
  "sql_update name refs P f s = Inr s' \<Longrightarrow>
     table_rows name s' = map (\<lambda>r. if P r then f r else r) (table_rows name s)"
  by (auto simp: sql_update_def table_rows_def update_conv' split: option.splits if_splits)

text \<open>
  Claim C4, as stated, fails in its second half: when the counts 0, 0, 0 are saved for a
  period whose total is 0, the update of \<^verbatim>\<open>hub_metrics\<close> is skipped (\<^verbatim>\<open>if total > 0\<close>), and the
  stored percentages stay what they were, here 35, 63 and 2.
\<close>

theorem zero_gender_counts_counterexample:
  "update_gender_percentages
     [\<lparr>Time_Period = ''Jan 2025'', Female = 0, Male = 0, Other_Gender = 0, Total = 0\<rparr>]
     ''AKQA'' (Num 1) ''2025-02-02 00:00:00'' sample_store = Inr sample_store
   \<and> map (\<lambda>r. (value_of r ''female_percent'', value_of r ''male_percent'',
                  value_of r ''other_gender_percent''))
         (table_rows ''hub_metrics'' sample_store) = [(Real 35, Real 63, Real 2)]"
proof -
  have "map (\<lambda>r. (value_of r ''female_percent'', value_of r ''male_percent'',
                  value_of r ''other_gender_percent''))
         (table_rows ''hub_metrics'' sample_store) = [(Real 35, Real 63, Real 2)]"
    by code_simp
  then show ?thesis
    by (simp add: update_gender_percentages_def)
qed

text \<open>
  Claim C4, amended. Saving gender counts never raises a division by zero. When the counts
  of the first row are 0, 0, 0: if the row's \<^verbatim>\<open>Total\<close> is not positive the store is left as it
  is, the stored percentages included; if the \<^verbatim>\<open>Total\<close> carried in the row is positive and the
  update succeeds, the rows of the hub hold 0, 0, 0.
\<close>

theorem zero_gender_counts:
  assumes "Female latest_row = 0" "Male latest_row = 0" "Other_Gender latest_row = 0"
  shows "update_gender_percentages (latest_row # rest) current_hub hub_id now s \<noteq> Inl ZeroDivisionError
       \<and> (Total latest_row \<le> 0 \<longrightarrow>
            update_gender_percentages (latest_row # rest) current_hub hub_id now s = Inr s)
       \<and> (\<forall>s'. 0 < Total latest_row \<longrightarrow>
            update_gender_percentages (latest_row # rest) current_hub hub_id now s = Inr s' \<longrightarrow>
            (\<forall>r \<in> set (table_rows ''hub_metrics'' s').
               sql_eq (value_of r ''hub_id'') hub_id \<longrightarrow>
               value_of r ''female_percent'' = Real 0 \<and> value_of r ''male_percent'' = Real 0
               \<and> value_of r ''other_gender_percent'' = Real 0))"
proof (cases "0 < Total latest_row")
  case False
  then show ?thesis by (simp add: update_gender_percentages_def)
next
  case True
  let ?sets = "[(''female_percent'', Real 0), (''male_percent'', Real 0),
                (''other_gender_percent'', Real 0), (''updated_at'', Text now),
                (''updated_by'', Text current_hub)]"
  let ?P = "\<lambda>r. sql_eq (value_of r ''hub_id'') hub_id"
  have eq: "update_gender_percentages (latest_row # rest) current_hub hub_id now s
          = sql_update ''hub_metrics''
              [''female_percent'', ''male_percent'', ''other_gender_percent'', ''updated_at'',
               ''updated_by'', ''hub_id''] ?P (set_cols ?sets) s"
    using True assms by (simp add: update_gender_percentages_def percentage_def)
  have a: "update_gender_percentages (latest_row # rest) current_hub hub_id now s \<noteq> Inl ZeroDivisionError"
    unfolding eq by (auto dest: sql_update_error)
  have c: "value_of r ''female_percent'' = Real 0 \<and> value_of r ''male_percent'' = Real 0
               \<and> value_of r ''other_gender_percent'' = Real 0"
    if s': "update_gender_percentages (latest_row # rest) current_hub hub_id now s = Inr s'"
      and r: "r \<in> set (table_rows ''hub_metrics'' s')" "?P r" for s' r
  proof -
    from s' have "table_rows ''hub_metrics'' s'
        = map (\<lambda>r. if ?P r then set_cols ?sets r else r) (table_rows ''hub_metrics'' s)"
      unfolding eq by (rule sql_update_rows)
    with r(1) have "r \<in> (\<lambda>r. if ?P r then set_cols ?sets r else r) ` set (table_rows ''hub_metrics'' s)"
      by (simp del: set_cols.simps)
    then obtain r0 where r0: "r = (if ?P r0 then set_cols ?sets r0 else r0)"
      by (rule imageE)
    have hub: "value_of (set_cols ?sets r0) ''hub_id'' = value_of r0 ''hub_id''"
      by (simp add: value_of_set_col)
    from r0 r(2) hub have "?P r0" by (auto split: if_splits)
    with r0 show ?thesis by (simp add: value_of_set_col)
  qed
  from a c True show ?thesis by auto
qed

theorem zero_gender_counts_witness:
  "update_gender_percentages
     [\<lparr>Time_Period = ''Jan 2025'', Female = 0, Male = 0, Other_Gender = 0, Total = 0\<rparr>]
     ''AKQA'' (Num 1) ''2025-02-02 00:00:00'' sample_store = Inr sample_store
   \<and> \<not> isl (update_gender_percentages
        [\<lparr>Time_Period = ''Jan 2025'', Female = 0, Male = 0, Other_Gender = 0, Total = 10\<rparr>]
        ''AKQA'' (Num 1) ''2025-02-02 00:00:00'' sample_store)
   \<and> map (\<lambda>r. sql_eq (value_of r ''hub_id'') (Num 1))
        (table_rows ''hub_metrics'' (projr (update_gender_percentages
           [\<lparr>Time_Period = ''Jan 2025'', Female = 0, Male = 0, Other_Gender = 0, Total = 10\<rparr>]
           ''AKQA'' (Num 1) ''2025-02-02 00:00:00'' sample_store))) = [True]
   \<and> list_all (\<lambda>r. value_of r ''female_percent'' = Real 0 \<and> value_of r ''male_percent'' = Real 0
                    \<and> value_of r ''other_gender_percent'' = Real 0)
        (table_rows ''hub_metrics'' (projr (update_gender_percentages
           [\<lparr>Time_Period = ''Jan 2025'', Female = 0, Male = 0, Other_Gender = 0, Total = 10\<rparr>]
           ''AKQA'' (Num 1) ''2025-02-02 00:00:00'' sample_store)))"
proof -
  let ?r0 = "\<lparr>Time_Period = ''Jan 2025'', Female = 0, Male = 0, Other_Gender = 0, Total = 0\<rparr>"
  let ?r10 = "\<lparr>Time_Period = ''Jan 2025'', Female = 0, Male = 0, Other_Gender = 0, Total = 10\<rparr>"
  let ?u = "update_gender_percentages [?r10] ''AKQA'' (Num 1) ''2025-02-02 00:00:00'' sample_store"
  have a: "update_gender_percentages [?r0] ''AKQA'' (Num 1) ''2025-02-02 00:00:00'' sample_store
         = Inr sample_store"
    using zero_gender_counts [of ?r0 "[]" "''AKQA''" "Num 1" "''2025-02-02 00:00:00''" sample_store]
    by simp
  have b: "\<not> isl ?u"
    by code_simp
  then obtain s' where s': "?u = Inr s'"
    by (cases ?u) auto
  have c: "map (\<lambda>r. sql_eq (value_of r ''hub_id'') (Num 1)) (table_rows ''hub_metrics'' (projr ?u))
         = [True]"
    by code_simp
  then have m: "\<forall>r \<in> set (table_rows ''hub_metrics'' s'). sql_eq (value_of r ''hub_id'') (Num 1)"
    unfolding s' by (auto simp: map_eq_Cons_conv)
  from zero_gender_counts [of ?r10 "[]" "''AKQA''" "Num 1" "''2025-02-02 00:00:00''" sample_store] s' m
  have d: "list_all (\<lambda>r. value_of r ''female_percent'' = Real 0 \<and> value_of r ''male_percent'' = Real 0
                    \<and> value_of r ''other_gender_percent'' = Real 0)
             (table_rows ''hub_metrics'' (projr ?u))"
    by (simp add: list_all_iff)
  from a b c d show ?thesis by blast
qed

subsection \<open>Capabilities\<close>

text \<open>
  Claim C8. When a capability row with the pair (hub, name) exists and a name is submitted
  (the handler does nothing for an empty name), \<^verbatim>\<open>add_capability\<close> shows an error, inserts
  nothing and leaves the store, the existing row included, as it was. With the three columns
  of the lookup present the error is \<^verbatim>\<open>Service '...' already exists for this hub\<close>.
\<close>

theorem duplicate_capability_rejected:
  assumes "r \<in> set (table_rows ''hub_capabilities'' s)"
    and "sql_eq (value_of r ''hub_id'') (Num hub_id)"
    and "sql_eq (value_of r ''capability_name'') (Text new_capability_name)"
    and "new_capability_name \<noteq> []"
  shows "snd (add_capability hub_id new_capability_name default_category headcount current_hub now s) = s
       \<and> (\<exists>message.
            fst (add_capability hub_id new_capability_name default_category headcount current_hub now s)
              = Some (Error_notice message))
       \<and> (list_all (\<lambda>c. c \<in> set (map lower (table_info ''hub_capabilities'' s)))
              [''id'', ''hub_id'', ''capability_name''] \<longrightarrow>
            fst (add_capability hub_id new_capability_name default_category headcount current_hub now s)
              = Some (Error_notice (''Service '' @ [CHR 0x27] @ new_capability_name @ [CHR 0x27]
                                      @ '' already exists for this hub'')))"
proof -
  let ?P = "\<lambda>r. sql_eq (value_of r ''hub_id'') (Num hub_id)
                \<and> sql_eq (value_of r ''capability_name'') (Text new_capability_name)"
  from assms(1) obtain tb where tb: "map_of s ''hub_capabilities'' = Some tb" "r \<in> set (rows tb)"
    by (cases "map_of s ''hub_capabilities''") (auto simp: table_rows_def)
  from tb(2) assms(2,3) have ne: "filter ?P (rows tb) \<noteq> []"
    by (auto simp: filter_empty_conv)
  show ?thesis
  proof (cases "list_all (\<lambda>c. c \<in> set (column_keys tb)) [''id'', ''hub_id'', ''capability_name'']")
    case True
    with tb(1) have "sql_select ''hub_capabilities'' [''id'', ''hub_id'', ''capability_name''] ?P s
        = Inr (filter ?P (rows tb))"
      by (simp add: sql_select_def)
    with ne assms(4) show ?thesis
      by (simp add: add_capability_def)
  next
    case False
    with tb(1) have "sql_select ''hub_capabilities'' [''id'', ''hub_id'', ''capability_name''] ?P s
        = Inl OperationalError"
      by (simp add: sql_select_def)
    moreover from False tb(1)
    have "\<not> list_all (\<lambda>c. c \<in> set (map lower (table_info ''hub_capabilities'' s)))
              [''id'', ''hub_id'', ''capability_name'']"
      by (simp add: table_info_def column_keys_def)
    ultimately show ?thesis using assms(4)
      by (simp add: add_capability_def)
  qed
qed

theorem duplicate_capability_rejected_witness:
  "add_capability 3 ''SEO'' ''MEDIA+'' 2 ''GroupM Nexus Global Team'' ''2025-02-02 00:00:00''
       capability_store
     = (Some (Error_notice (''Service '' @ [CHR 0x27] @ ''SEO'' @ [CHR 0x27]
                              @ '' already exists for this hub'')), capability_store)
   \<and> map (\<lambda>r. (value_of r ''hub_id'', value_of r ''capability_name'', value_of r ''headcount''))
        (table_rows ''hub_capabilities'' capability_store) = [(Num 3, Text ''SEO'', Num 7)]"
proof -
  let ?r = "[(''id'', Num 1), (''hub_id'', Num 3), (''capability_name'', Text ''SEO''),
             (''capability_category'', Text ''MEDIA+''), (''headcount'', Num 7),
             (''updated_at'', Text ''2025-01-01 00:00:00''), (''updated_by'', Null),
             (''capability_updated_at'', Text ''2025-01-01 00:00:00'')]"
  have rows: "table_rows ''hub_capabilities'' capability_store = [?r]"
    by (simp add: table_rows_def capability_store_def)
  have 1: "?r \<in> set (table_rows ''hub_capabilities'' capability_store)"
    by (simp add: rows)
  have 2: "sql_eq (value_of ?r ''hub_id'') (Num 3)"
    by code_simp
  have 3: "sql_eq (value_of ?r ''capability_name'') (Text ''SEO'')"
    by code_simp
  have 4: "''SEO'' \<noteq> []"
    by simp
  have 5: "list_all (\<lambda>c. c \<in> set (map lower (table_info ''hub_capabilities'' capability_store)))
             [''id'', ''hub_id'', ''capability_name'']"
    by code_simp
  have 6: "map (\<lambda>r. (value_of r ''hub_id'', value_of r ''capability_name'', value_of r ''headcount''))
        (table_rows ''hub_capabilities'' capability_store) = [(Num 3, Text ''SEO'', Num 7)]"
    by code_simp
  from duplicate_capability_rejected [OF 1 2 3 4, of "''MEDIA+''" 2 "''GroupM Nexus Global Team''"
      "''2025-02-02 00:00:00''"] 5 6
  show ?thesis
    by (simp add: prod_eq_iff)
qed

subsection \<open>Column additions\<close>

text \<open>
  Claim C6 states what \<^verbatim>\<open>add_column_if_not_exists\<close> is written for (\<^verbatim>\<open>Safely add a column\<close>,
  \<^verbatim>\<open>Column likely already exists, just continue\<close>), but \<^verbatim>\<open>setup_database\<close> adds only
  \<^verbatim>\<open>hub_capabilities.headcount\<close> through it. Every other column is added by a bare
  \<^verbatim>\<open>c.execute\<close> behind the test \<^verbatim>\<open>if c not in columns\<close>, which compares the names exactly,
  while the engine compares them without regard to letter case.

  In \<open>drifted_store\<close> the table \<^verbatim>\<open>hub_metrics\<close> declares \<^verbatim>\<open>Metrics_Updated_At\<close>. None of the
  three timestamp names is in the column list; the engine refuses \<^verbatim>\<open>metrics_updated_at\<close>;
  \<^verbatim>\<open>setup_database\<close> raises, so \<^verbatim>\<open>location_updated_at\<close>, \<^verbatim>\<open>certifications_updated_at\<close> and the
  columns of the other tables are never attempted. The helper, given the same addition,
  returns the store untouched. In \<open>headcount_store\<close>, where the clash is on the one column
  that goes through the helper, \<^verbatim>\<open>setup_database\<close> completes: the column list of
  \<^verbatim>\<open>hub_capabilities\<close> is as before and \<^verbatim>\<open>hub_metrics\<close> has received its three timestamp columns.
\<close>

theorem setup_database_column_failure:
  "''metrics_updated_at'' \<notin> set (table_info ''hub_metrics'' drifted_store)
   \<and> ''location_updated_at'' \<notin> set (table_info ''hub_metrics'' drifted_store)
   \<and> ''certifications_updated_at'' \<notin> set (table_info ''hub_metrics'' drifted_store)
   \<and> alter_table_add_column ''hub_metrics'' ''metrics_updated_at'' Null drifted_store
        = Inl OperationalError
   \<and> setup_database (\<lambda>p. p) ''2025-02-02 00:00:00'' drifted_store = Inl OperationalError
   \<and> add_column_if_not_exists ''hub_metrics'' ''metrics_updated_at'' Null drifted_store
        = Inr drifted_store
   \<and> ''headcount'' \<notin> set (table_info ''hub_capabilities'' headcount_store)
   \<and> alter_table_add_column ''hub_capabilities'' ''headcount'' (Num 0) headcount_store
        = Inl OperationalError
   \<and> \<not> isl (setup_database (\<lambda>p. p) ''2025-02-02 00:00:00'' headcount_store)
   \<and> table_info ''hub_capabilities''
         (projr (setup_database (\<lambda>p. p) ''2025-02-02 00:00:00'' headcount_store))
        = table_info ''hub_capabilities'' headcount_store
   \<and> table_info ''hub_metrics''
         (projr (setup_database (\<lambda>p. p) ''2025-02-02 00:00:00'' headcount_store))
        = cols hub_metrics_schema @ hub_metrics_timestamp_columns"
proof -
  have a: "''metrics_updated_at'' \<notin> set (table_info ''hub_metrics'' drifted_store)
   \<and> ''location_updated_at'' \<notin> set (table_info ''hub_metrics'' drifted_store)
   \<and> ''certifications_updated_at'' \<notin> set (table_info ''hub_metrics'' drifted_store)"
    by code_simp
  have b: "alter_table_add_column ''hub_metrics'' ''metrics_updated_at'' Null drifted_store
        = Inl OperationalError"
    by code_simp
  have c: "setup_database (\<lambda>p. p) ''2025-02-02 00:00:00'' drifted_store = Inl OperationalError"
    by code_simp
  have d: "add_column_if_not_exists ''hub_metrics'' ''metrics_updated_at'' Null drifted_store
        = Inr drifted_store"
    by (simp add: add_column_if_not_exists_def b)
  have e: "''headcount'' \<notin> set (table_info ''hub_capabilities'' headcount_store)"
    by code_simp
  have f: "alter_table_add_column ''hub_capabilities'' ''headcount'' (Num 0) headcount_store
        = Inl OperationalError"
    by code_simp
  have g: "\<not> isl (setup_database (\<lambda>p. p) ''2025-02-02 00:00:00'' headcount_store)
   \<and> table_info ''hub_capabilities''
         (projr (setup_database (\<lambda>p. p) ''2025-02-02 00:00:00'' headcount_store))
        = table_info ''hub_capabilities'' headcount_store
   \<and> table_info ''hub_metrics''
         (projr (setup_database (\<lambda>p. p) ''2025-02-02 00:00:00'' headcount_store))
        = cols hub_metrics_schema @ hub_metrics_timestamp_columns"
    by code_simp
  from a b c d e f g show ?thesis
    by blast
qed

section \<open>Running setup_database again\<close>

subsection \<open>A settled store is left as it is\<close>








lemma sql_eq_Null_right [simp]: "sql_eq x Null = False"
  by (cases x) simp_all



lemma table_rows_id: "tb\<lparr>rows := rows tb\<rparr> = tb"
  by simp



subsection \<open>Statements only add\<close>





















subsection \<open>What each part of setup_database establishes\<close>








subsection \<open>Seeding\<close>






subsection \<open>Initialising the timestamps\<close>
















end
